theory Spec2Isabelle
  imports Complex_Main
begin

section \<open>Deployment configuration and exceptions\<close>

text \<open>
  The module-level settings read from \<^verbatim>\<open>shared_configs.configs\<close> and from the
  environment (\<^verbatim>\<open>TENANT_ISOLATION_MODE\<close> in \<^verbatim>\<open>tenant_tracking.py\<close>,
  \<^verbatim>\<open>VESPA_APP_CONTAINER_URL\<close> in \<^verbatim>\<open>vespa_constants\<close>). Their values are fixed per
  deployment, so every operation takes them as one record.
\<close>

record config =
  MULTI_TENANT :: bool
  POSTGRES_DEFAULT_SCHEMA :: string
  TENANT_ISOLATION_MODE :: string
  VESPA_APP_CONTAINER_URL :: string

text \<open>
  The exceptions the modelled code raises. \<open>HTTPException\<close> carries the status code
  and the detail string; \<open>OtherException\<close> stands for any exception raised by a
  collaborator (the token store, the cookie decoder, the platform database).
\<close>

datatype exn =
    RuntimeError
  | TenantNotProvisionedError string
  | TenantSuspendedError string
  | HTTPException nat string
  | OtherException string

section \<open>Context store (\<^verbatim>\<open>shared_configs/contextvars.py\<close>)\<close>

text \<open>
  A \<^verbatim>\<open>contextvars.ContextVar\<close> either holds no value in the current context
  (\<open>None\<close>; \<^verbatim>\<open>get()\<close> then yields the variable's default) or holds the value last
  set (\<open>Some x\<close>). \<^verbatim>\<open>set\<close> returns a token remembering the previous state, and
  \<^verbatim>\<open>reset\<close> puts that state back.
\<close>

type_synonym 'a ContextVar = "'a option"

datatype 'a Token = Token (old_value: "'a option")

definition cv_get :: "'a \<Rightarrow> 'a ContextVar \<Rightarrow> 'a" where
  "cv_get dflt v = (case v of None \<Rightarrow> dflt | Some x \<Rightarrow> x)"

definition cv_set :: "'a \<Rightarrow> 'a ContextVar \<Rightarrow> 'a ContextVar \<times> 'a Token" where
  "cv_set x v = (Some x, Token v)"

definition cv_reset :: "'a Token \<Rightarrow> 'a ContextVar \<Rightarrow> 'a ContextVar" where
  "cv_reset tok v = old_value tok"

text \<open>The five tenant slots; the four locators hold \<^verbatim>\<open>str | None\<close>.\<close>

record tenant_ctx =
  CURRENT_TENANT_ID_CONTEXTVAR :: "string option ContextVar"
  CURRENT_DB_URL_CONTEXTVAR :: "string option ContextVar"
  CURRENT_VESPA_URL_CONTEXTVAR :: "string option ContextVar"
  CURRENT_ORG_ID_CONTEXTVAR :: "string option ContextVar"
  TENANT_ISOLATION_MODE_CONTEXTVAR :: "string ContextVar"

text \<open>
  The dictionary of tokens returned by \<^verbatim>\<open>set_tenant_context\<close>: a key is present
  exactly when its field is \<open>Some\<close>.
\<close>

record tokens =
  tok_tenant_id :: "string option Token option"
  tok_org_id :: "string option Token option"
  tok_db_url :: "string option Token option"
  tok_vespa_url :: "string option Token option"
  tok_isolation_mode :: "string Token option"

definition tenant_id_default :: "config \<Rightarrow> string option" where
  "tenant_id_default cfg =
     (if MULTI_TENANT cfg then None else Some (POSTGRES_DEFAULT_SCHEMA cfg))"

definition get_current_tenant_id :: "config \<Rightarrow> tenant_ctx \<Rightarrow> exn + string" where
  "get_current_tenant_id cfg ctx =
     (case cv_get (tenant_id_default cfg) (CURRENT_TENANT_ID_CONTEXTVAR ctx) of
        None \<Rightarrow>
          if \<not> MULTI_TENANT cfg then Inr (POSTGRES_DEFAULT_SCHEMA cfg)
          else Inl RuntimeError
      | Some tenant_id \<Rightarrow> Inr tenant_id)"

definition get_current_db_url :: "tenant_ctx \<Rightarrow> string option" where
  "get_current_db_url ctx = cv_get None (CURRENT_DB_URL_CONTEXTVAR ctx)"

definition get_current_vespa_url :: "tenant_ctx \<Rightarrow> string option" where
  "get_current_vespa_url ctx = cv_get None (CURRENT_VESPA_URL_CONTEXTVAR ctx)"

definition get_current_org_id :: "tenant_ctx \<Rightarrow> string option" where
  "get_current_org_id ctx = cv_get None (CURRENT_ORG_ID_CONTEXTVAR ctx)"

definition get_tenant_isolation_mode :: "tenant_ctx \<Rightarrow> string" where
  "get_tenant_isolation_mode ctx = cv_get ''schema'' (TENANT_ISOLATION_MODE_CONTEXTVAR ctx)"

definition is_full_database_isolation :: "tenant_ctx \<Rightarrow> bool" where
  "is_full_database_isolation ctx = (get_tenant_isolation_mode ctx = ''database'')"

text \<open>The default of the keyword argument \<^verbatim>\<open>isolation_mode\<close>.\<close>

definition isolation_mode_default :: string where
  "isolation_mode_default = ''schema''"

text \<open>
  \<^verbatim>\<open>set_tenant_context\<close>: each of the four optional arguments is written only when
  it is not \<^verbatim>\<open>None\<close>; the isolation mode is written always. The result is the new
  context and the token dictionary.
\<close>

definition set_tenant_context ::
  "string option \<Rightarrow> string option \<Rightarrow> string option \<Rightarrow> string option \<Rightarrow> string
     \<Rightarrow> tenant_ctx \<Rightarrow> tenant_ctx \<times> tokens" where
  "set_tenant_context tenant_id org_id db_url vespa_url isolation_mode ctx =
     (let (c1, k1) =
            (case tenant_id of
               None \<Rightarrow> (ctx, None)
             | Some t \<Rightarrow>
                 (let (v, tok) = cv_set (Some t) (CURRENT_TENANT_ID_CONTEXTVAR ctx)
                  in (ctx\<lparr>CURRENT_TENANT_ID_CONTEXTVAR := v\<rparr>, Some tok)));
          (c2, k2) =
            (case org_id of
               None \<Rightarrow> (c1, None)
             | Some t \<Rightarrow>
                 (let (v, tok) = cv_set (Some t) (CURRENT_ORG_ID_CONTEXTVAR c1)
                  in (c1\<lparr>CURRENT_ORG_ID_CONTEXTVAR := v\<rparr>, Some tok)));
          (c3, k3) =
            (case db_url of
               None \<Rightarrow> (c2, None)
             | Some t \<Rightarrow>
                 (let (v, tok) = cv_set (Some t) (CURRENT_DB_URL_CONTEXTVAR c2)
                  in (c2\<lparr>CURRENT_DB_URL_CONTEXTVAR := v\<rparr>, Some tok)));
          (c4, k4) =
            (case vespa_url of
               None \<Rightarrow> (c3, None)
             | Some t \<Rightarrow>
                 (let (v, tok) = cv_set (Some t) (CURRENT_VESPA_URL_CONTEXTVAR c3)
                  in (c3\<lparr>CURRENT_VESPA_URL_CONTEXTVAR := v\<rparr>, Some tok)));
          (v5, k5) = cv_set isolation_mode (TENANT_ISOLATION_MODE_CONTEXTVAR c4)
      in (c4\<lparr>TENANT_ISOLATION_MODE_CONTEXTVAR := v5\<rparr>,
          \<lparr>tok_tenant_id = k1, tok_org_id = k2, tok_db_url = k3, tok_vespa_url = k4,
           tok_isolation_mode = Some k5\<rparr>))"

definition reset_tenant_context :: "tokens \<Rightarrow> tenant_ctx \<Rightarrow> tenant_ctx" where
  "reset_tenant_context toks ctx =
     (let c1 = (case tok_tenant_id toks of
                  None \<Rightarrow> ctx
                | Some tok \<Rightarrow> ctx\<lparr>CURRENT_TENANT_ID_CONTEXTVAR :=
                                   cv_reset tok (CURRENT_TENANT_ID_CONTEXTVAR ctx)\<rparr>);
          c2 = (case tok_org_id toks of
                  None \<Rightarrow> c1
                | Some tok \<Rightarrow> c1\<lparr>CURRENT_ORG_ID_CONTEXTVAR :=
                                  cv_reset tok (CURRENT_ORG_ID_CONTEXTVAR c1)\<rparr>);
          c3 = (case tok_db_url toks of
                  None \<Rightarrow> c2
                | Some tok \<Rightarrow> c2\<lparr>CURRENT_DB_URL_CONTEXTVAR :=
                                  cv_reset tok (CURRENT_DB_URL_CONTEXTVAR c2)\<rparr>);
          c4 = (case tok_vespa_url toks of
                  None \<Rightarrow> c3
                | Some tok \<Rightarrow> c3\<lparr>CURRENT_VESPA_URL_CONTEXTVAR :=
                                  cv_reset tok (CURRENT_VESPA_URL_CONTEXTVAR c3)\<rparr>)
      in (case tok_isolation_mode toks of
            None \<Rightarrow> c4
          | Some tok \<Rightarrow> c4\<lparr>TENANT_ISOLATION_MODE_CONTEXTVAR :=
                            cv_reset tok (TENANT_ISOLATION_MODE_CONTEXTVAR c4)\<rparr>))"

section \<open>Infrastructure registry (\<^verbatim>\<open>onyx/db/tenant_registry.py\<close>)\<close>

text \<open>Python's \<^verbatim>\<open>str\<close> on an integer, used by the URL f-strings.\<close>

definition digit_char :: "nat \<Rightarrow> char" where
  "digit_char d = ''0123456789'' ! d"

fun digits_of :: "nat \<Rightarrow> string" where
  "digits_of n =
     (if n < 10 then [digit_char n] else digits_of (n div 10) @ [digit_char (n mod 10)])"

definition str_int :: "int \<Rightarrow> string" where
  "str_int i = (if i < 0 then CHR ''-'' # digits_of (nat (- i)) else digits_of (nat i))"

record TenantInfrastructure =
  organization_id :: string
  database_host :: string
  database_port :: int
  database_name :: string
  vespa_host :: string
  vespa_port :: int
  status :: string
  provisioned_at :: "string option"
  last_health_check :: "string option"
  metadata :: "(string \<times> string) list option"

definition database_url :: "TenantInfrastructure \<Rightarrow> string" where
  "database_url i =
     ''postgresql://'' @ database_host i @ '':'' @ str_int (database_port i)
       @ ''/'' @ database_name i"

definition vespa_url :: "TenantInfrastructure \<Rightarrow> string" where
  "vespa_url i = ''http://'' @ vespa_host i @ '':'' @ str_int (vespa_port i)"

definition vespa_config_url :: "TenantInfrastructure \<Rightarrow> string" where
  "vespa_config_url i = ''http://'' @ vespa_host i @ '':19071''"

definition is_active :: "TenantInfrastructure \<Rightarrow> bool" where
  "is_active i = (status i = ''active'')"

definition is_provisioning :: "TenantInfrastructure \<Rightarrow> bool" where
  "is_provisioning i = (status i = ''provisioning'')"

definition is_suspended :: "TenantInfrastructure \<Rightarrow> bool" where
  "is_suspended i = (status i = ''suspended'')"

text \<open>
  A cache entry and its expiry test. \<^verbatim>\<open>time.time()\<close> is an input of the model:
  every operation takes the clock readings it makes as arguments.
\<close>

record CachedTenantEntry =
  infrastructure :: TenantInfrastructure
  cached_at :: real

definition is_expired :: "CachedTenantEntry \<Rightarrow> int \<Rightarrow> real \<Rightarrow> bool" where
  "is_expired entry ttl now = (now - cached_at entry > of_int ttl)"

definition TENANT_CACHE_TTL_SECONDS :: int where
  "TENANT_CACHE_TTL_SECONDS = 300"

record TenantRegistry =
  cache :: "string \<rightharpoonup> CachedTenantEntry"
  ttl_seconds :: int

definition TenantRegistry_init :: TenantRegistry where
  "TenantRegistry_init = \<lparr>cache = Map.empty, ttl_seconds = TENANT_CACHE_TTL_SECONDS\<rparr>"

definition set_ttl :: "int \<Rightarrow> TenantRegistry \<Rightarrow> TenantRegistry" where
  "set_ttl ttl reg = reg\<lparr>ttl_seconds := ttl\<rparr>"

text \<open>
  The platform database behind \<^verbatim>\<open>platform_session\<close>: \<open>rows\<close> is the content of
  the table \<^verbatim>\<open>tenant_infrastructure\<close> (a query may also raise), \<open>connect_ok\<close> says
  whether \<^verbatim>\<open>get_session_with_shared_schema()\<close> yields a session, and \<open>query_log\<close>
  records the organization id of every query executed, in order.
\<close>

record platform_db =
  rows :: "string \<Rightarrow> exn + TenantInfrastructure option"
  connect_ok :: bool
  query_log :: "string list"

definition execute :: "platform_db \<Rightarrow> string \<Rightarrow> (exn + TenantInfrastructure option) \<times> platform_db" where
  "execute db org = (rows db org, db\<lparr>query_log := query_log db @ [org]\<rparr>)"

text \<open>
  \<^verbatim>\<open>_query_tenant_infrastructure\<close>: one query; no row and a suspended row raise. A row
  is given as the record that the constructor call builds from its columns, up to the
  metadata column, whose empty value becomes \<^verbatim>\<open>None\<close>.
\<close>

definition query_tenant_infrastructure ::
  "string \<Rightarrow> platform_db \<Rightarrow> (exn + TenantInfrastructure) \<times> platform_db" where
  "query_tenant_infrastructure org db =
     (let (result, db') = execute db org
      in case result of
           Inl e \<Rightarrow> (Inl e, db')
         | Inr None \<Rightarrow> (Inl (TenantNotProvisionedError org), db')
         | Inr (Some row) \<Rightarrow>
             (let infra = row\<lparr>metadata := (if metadata row = Some [] then None
                                              else metadata row)\<rparr>
              in if is_suspended infra then (Inl (TenantSuspendedError org), db')
                 else (Inr infra, db')))"

text \<open>\<^verbatim>\<open>_get_from_cache\<close>: an expired entry is deleted on access.\<close>

definition get_from_cache ::
  "TenantRegistry \<Rightarrow> string \<Rightarrow> real \<Rightarrow> TenantInfrastructure option \<times> TenantRegistry" where
  "get_from_cache reg org now =
     (case cache reg org of
        None \<Rightarrow> (None, reg)
      | Some entry \<Rightarrow>
          if is_expired entry (ttl_seconds reg) now
          then (None, reg\<lparr>cache := (cache reg)(org := None)\<rparr>)
          else (Some (infrastructure entry), reg))"

definition add_to_cache ::
  "TenantRegistry \<Rightarrow> string \<Rightarrow> TenantInfrastructure \<Rightarrow> real \<Rightarrow> TenantRegistry" where
  "add_to_cache reg org infra now =
     reg\<lparr>cache := (cache reg)(org \<mapsto> \<lparr>infrastructure = infra, cached_at = now\<rparr>)\<rparr>"

definition invalidate_cache :: "string option \<Rightarrow> TenantRegistry \<Rightarrow> TenantRegistry" where
  "invalidate_cache org_opt reg =
     (case org_opt of
        None \<Rightarrow> reg\<lparr>cache := Map.empty\<rparr>
      | Some org \<Rightarrow>
          if cache reg org \<noteq> None then reg\<lparr>cache := (cache reg)(org := None)\<rparr> else reg)"

text \<open>
  \<^verbatim>\<open>get_tenant_infrastructure\<close>. \<open>now_check\<close> is the clock reading of the expiry
  test, \<open>now_add\<close> the later one taken when the result is cached.
\<close>

definition get_tenant_infrastructure ::
  "TenantRegistry \<Rightarrow> platform_db \<Rightarrow> string \<Rightarrow> bool \<Rightarrow> real \<Rightarrow> real
     \<Rightarrow> (exn + TenantInfrastructure) \<times> TenantRegistry \<times> platform_db" where
  "get_tenant_infrastructure reg db org bypass_cache now_check now_add =
     (let (cached, reg1) =
            (if \<not> bypass_cache then get_from_cache reg org now_check else (None, reg))
      in case cached of
           Some infra \<Rightarrow> (Inr infra, reg1, db)
         | None \<Rightarrow>
             (case query_tenant_infrastructure org db of
                (Inl e, db') \<Rightarrow> (Inl e, reg1, db')
              | (Inr infra, db') \<Rightarrow> (Inr infra, add_to_cache reg1 org infra now_add, db')))"

section \<open>Tenant resolver (\<^verbatim>\<open>ee/onyx/server/middleware/tenant_tracking.py\<close>)\<close>

text \<open>
  The values found in the decoded token and cookie payloads: \<^verbatim>\<open>None\<close> or a string
  (other JSON values are left out). \<open>truthy\<close> is Python's truth test, \<open>py_str\<close> is
  \<^verbatim>\<open>str\<close>, and \<open>py_or\<close> is the operator \<^verbatim>\<open>or\<close>.
\<close>

datatype pyval = PNone | PStr string

fun truthy :: "pyval \<Rightarrow> bool" where
  "truthy PNone = False"
| "truthy (PStr s) = (s \<noteq> [])"

fun py_str :: "pyval \<Rightarrow> string" where
  "py_str PNone = ''None''"
| "py_str (PStr s) = s"

definition py_or :: "pyval \<Rightarrow> pyval \<Rightarrow> pyval" where
  "py_or a b = (if truthy a then a else b)"

type_synonym pydict = "(string \<times> pyval) list"

definition dict_get :: "pydict \<Rightarrow> string \<Rightarrow> pyval \<Rightarrow> pyval" where
  "dict_get d k dflt = (case map_of d k of None \<Rightarrow> dflt | Some v \<Rightarrow> v)"

definition opt_to_pyval :: "string option \<Rightarrow> pyval" where
  "opt_to_pyval x = (case x of None \<Rightarrow> PNone | Some s \<Rightarrow> PStr s)"

definition pyval_to_opt :: "pyval \<Rightarrow> string option" where
  "pyval_to_opt v = (case v of PNone \<Rightarrow> None | PStr s \<Rightarrow> Some s)"

text \<open>
  What the resolver reads from one request: the header \<^verbatim>\<open>X-Tenant-Id\<close>, the result
  of \<^verbatim>\<open>extract_tenant_from_auth_header\<close>, the result of
  \<^verbatim>\<open>retrieve_auth_token_data_from_redis\<close>, the anonymous-user cookie with the result
  of \<^verbatim>\<open>decode_anonymous_user_jwt_token\<close> on it, and the tenant-id cookie. The three
  collaborator calls may raise.
\<close>

record request =
  header_X_Tenant_Id :: "string option"
  auth_header_tenant :: "exn + string option"
  redis_token_data :: "exn + pydict option"
  anonymous_user_cookie :: "string option"
  anonymous_user_data :: "exn + pydict"
  tenant_id_cookie :: "string option"

text \<open>
  Modelled from the spec: \<^verbatim>\<open>onyx.db.engine.sql_engine.is_valid_schema_name\<close> is not
  among the sources. The identifier-format rule is: non-empty, letters, digits,
  \<^verbatim>\<open>_\<close> and \<^verbatim>\<open>-\<close> only, of bounded length (the bound is a parameter). The resolver
  below takes the validator as an argument; this instance serves concrete runs.
\<close>

definition ident_char :: "char \<Rightarrow> bool" where
  "ident_char c =
     (let n = of_char c :: nat
      in (48 \<le> n \<and> n \<le> 57) \<or> (65 \<le> n \<and> n \<le> 90) \<or> (97 \<le> n \<and> n \<le> 122)
         \<or> n = 95 \<or> n = 45)"

definition is_valid_schema_name_spec :: "nat \<Rightarrow> string \<Rightarrow> bool" where
  "is_valid_schema_name_spec max_len s =
     (s \<noteq> [] \<and> length s \<le> max_len \<and> list_all ident_char s)"

text \<open>The four results of the resolver: tenant id, organization id, and the two locators.\<close>

type_synonym tenant_info = "pyval \<times> pyval \<times> string option \<times> string option"

text \<open>
  \<^verbatim>\<open>_lookup_tenant_infrastructure\<close>: the two locators of an organization. Not
  provisioned gives no locators, suspended raises 403, an \<^verbatim>\<open>HTTPException\<close> passes
  through, and every other failure (no session, a failing query) gives no locators.
\<close>

definition suspended_detail :: string where
  "suspended_detail = ''Organization access suspended. Please contact support.''"

definition lookup_tenant_infrastructure ::
  "string \<Rightarrow> TenantRegistry \<Rightarrow> platform_db \<Rightarrow> real \<Rightarrow> real
     \<Rightarrow> (exn + string option \<times> string option) \<times> TenantRegistry \<times> platform_db" where
  "lookup_tenant_infrastructure org_id reg db now_check now_add =
     (if \<not> connect_ok db then (Inr (None, None), reg, db)
      else
        (case get_tenant_infrastructure reg db org_id False now_check now_add of
           (Inr infra, reg', db') \<Rightarrow>
             (Inr (Some (database_url infra), Some (vespa_url infra)), reg', db')
         | (Inl (TenantNotProvisionedError t), reg', db') \<Rightarrow> (Inr (None, None), reg', db')
         | (Inl (TenantSuspendedError t), reg', db') \<Rightarrow>
             (Inl (HTTPException 403 suspended_detail), reg', db')
         | (Inl (HTTPException code detail), reg', db') \<Rightarrow>
             (Inl (HTTPException code detail), reg', db')
         | (Inl e, reg', db') \<Rightarrow> (Inr (None, None), reg', db')))"

text \<open>The local variables of \<^verbatim>\<open>_get_tenant_info_from_request\<close>.\<close>

record locals =
  loc_tenant_id :: pyval
  loc_org_id :: pyval
  loc_db_url :: "string option"
  loc_vespa_url :: "string option"

text \<open>Their values on entry (lines 96 to 99).\<close>

definition locals_init :: "config \<Rightarrow> locals" where
  "locals_init cfg =
     \<lparr>loc_tenant_id = PStr (POSTGRES_DEFAULT_SCHEMA cfg), loc_org_id = PNone,
      loc_db_url = None, loc_vespa_url = None\<rparr>"

definition invalid_format :: exn where
  "invalid_format = HTTPException 400 ''Invalid tenant ID format''"

definition default_info :: "config \<Rightarrow> tenant_info" where
  "default_info cfg = (PStr (POSTGRES_DEFAULT_SCHEMA cfg), PNone, None, None)"

text \<open>
  The anonymous-cookie branch (lines 159 to 184). Its inner \<^verbatim>\<open>except Exception\<close>
  catches whatever the branch raises, \<^verbatim>\<open>HTTPException\<close> included, and execution goes on
  after the branch: the result is \<open>None\<close> then, and \<open>Some\<close> of the returned tuple
  otherwise.
\<close>

definition anonymous_branch ::
  "config \<Rightarrow> (string \<Rightarrow> bool) \<Rightarrow> request \<Rightarrow> locals \<Rightarrow> TenantRegistry \<Rightarrow> platform_db
     \<Rightarrow> real \<Rightarrow> real \<Rightarrow> tenant_info option \<times> locals \<times> TenantRegistry \<times> platform_db" where
  "anonymous_branch cfg valid req l reg db now_check now_add =
     (case anonymous_user_data req of
        Inl e \<Rightarrow> (None, l, reg, db)
      | Inr data \<Rightarrow>
          (let tid = dict_get data ''tenant_id'' (PStr (POSTGRES_DEFAULT_SCHEMA cfg));
               oid = py_or (dict_get data ''organization_id'' PNone) tid;
               l1 = l\<lparr>loc_tenant_id := tid, loc_org_id := oid\<rparr>
           in if \<not> truthy tid \<or> \<not> valid (py_str tid) then (None, l1, reg, db)
              else if TENANT_ISOLATION_MODE cfg = ''database'' \<and> truthy oid then
                (case lookup_tenant_infrastructure (py_str oid) reg db now_check now_add of
                   (Inl e, reg', db') \<Rightarrow> (None, l1, reg', db')
                 | (Inr (d, v), reg', db') \<Rightarrow>
                     (Some (tid, oid, d, v), l1\<lparr>loc_db_url := d, loc_vespa_url := v\<rparr>, reg', db'))
              else (Some (tid, oid, loc_db_url l1, loc_vespa_url l1), l1, reg, db)))"

text \<open>
  The body of the \<^verbatim>\<open>try\<close> statement (lines 130 to 193): the pending outcome (a
  returned tuple or a raised exception) and the local variables at that point.
\<close>

definition try_body ::
  "config \<Rightarrow> (string \<Rightarrow> bool) \<Rightarrow> request \<Rightarrow> locals \<Rightarrow> TenantRegistry \<Rightarrow> platform_db
     \<Rightarrow> real \<Rightarrow> real \<Rightarrow> (exn + tenant_info) \<times> locals \<times> TenantRegistry \<times> platform_db" where
  "try_body cfg valid req l reg db now_check now_add =
     (case redis_token_data req of
        Inl e \<Rightarrow> (Inl e, l, reg, db)
      | Inr token_data \<Rightarrow>
          (if token_data \<noteq> None \<and> token_data \<noteq> Some [] then
             (let d = (case token_data of Some d \<Rightarrow> d | None \<Rightarrow> []);
                  payload = dict_get d ''tenant_id'' (PStr (POSTGRES_DEFAULT_SCHEMA cfg));
                  tid = (if payload \<noteq> PNone then py_str payload
                         else POSTGRES_DEFAULT_SCHEMA cfg);
                  l1 = l\<lparr>loc_tenant_id := PStr tid\<rparr>
              in if tid \<noteq> [] \<and> \<not> valid tid then (Inl invalid_format, l1, reg, db)
                 else
                   (let oid = py_or (dict_get d ''organization_id'' PNone) (PStr tid);
                        l2 = l1\<lparr>loc_org_id := oid\<rparr>
                    in if TENANT_ISOLATION_MODE cfg = ''database'' \<and> truthy oid then
                         (case lookup_tenant_infrastructure (py_str oid) reg db
                                 now_check now_add of
                            (Inl e, reg', db') \<Rightarrow> (Inl e, l2, reg', db')
                          | (Inr (dv, vv), reg', db') \<Rightarrow>
                              (Inr (PStr tid, oid, dv, vv),
                               l2\<lparr>loc_db_url := dv, loc_vespa_url := vv\<rparr>, reg', db'))
                       else (Inr (PStr tid, oid, loc_db_url l2, loc_vespa_url l2), l2, reg, db)))
           else
             (let (ret, l1, reg1, db1) =
                    (if anonymous_user_cookie req \<noteq> None \<and> anonymous_user_cookie req \<noteq> Some []
                     then anonymous_branch cfg valid req l reg db now_check now_add
                     else (None, l, reg, db))
              in case ret of
                   Some info \<Rightarrow> (Inr info, l1, reg1, db1)
                 | None \<Rightarrow> (Inr (default_info cfg), l1, reg1, db1))))"

text \<open>
  The \<^verbatim>\<open>except\<close> clauses of the \<^verbatim>\<open>try\<close> statement: an \<^verbatim>\<open>HTTPException\<close> is raised
  again, any other exception becomes a 500.
\<close>

definition except_clauses :: "exn + tenant_info \<Rightarrow> exn + tenant_info" where
  "except_clauses outcome =
     (case outcome of
        Inl (HTTPException code detail) \<Rightarrow> Inl (HTTPException code detail)
      | Inl e \<Rightarrow> Inl (HTTPException 500 ''Internal server error'')
      | Inr info \<Rightarrow> Inr info)"

text \<open>
  The \<^verbatim>\<open>finally\<close> clause (lines 201 to 209), run on the local variables: \<open>Some\<close> is the
  tuple it returns. Both of its paths end in a \<^verbatim>\<open>return\<close>.
\<close>

definition finally_clause ::
  "config \<Rightarrow> (string \<Rightarrow> bool) \<Rightarrow> request \<Rightarrow> locals \<Rightarrow> tenant_info option" where
  "finally_clause cfg valid req l =
     (if truthy (loc_tenant_id l) \<and> loc_tenant_id l \<noteq> PStr (POSTGRES_DEFAULT_SCHEMA cfg) then
        (case tenant_id_cookie req of
           Some c \<Rightarrow>
             if c \<noteq> [] \<and> valid c then Some (PStr c, PStr c, loc_db_url l, loc_vespa_url l)
             else Some (default_info cfg)
         | None \<Rightarrow> Some (default_info cfg))
      else Some (default_info cfg))"

text \<open>
  Python's \<^verbatim>\<open>try ... finally\<close>: a \<^verbatim>\<open>return\<close> executed inside \<^verbatim>\<open>finally\<close> replaces the
  pending outcome, be it a returned value or a raised exception.
\<close>

definition try_finally :: "exn + 'a \<Rightarrow> 'a option \<Rightarrow> exn + 'a" where
  "try_finally pending fin = (case fin of Some r \<Rightarrow> Inr r | None \<Rightarrow> pending)"

text \<open>\<^verbatim>\<open>_get_tenant_info_from_request\<close>.\<close>

definition get_tenant_info_from_request ::
  "config \<Rightarrow> (string \<Rightarrow> bool) \<Rightarrow> request \<Rightarrow> TenantRegistry \<Rightarrow> platform_db \<Rightarrow> real \<Rightarrow> real
     \<Rightarrow> (exn + tenant_info) \<times> TenantRegistry \<times> platform_db" where
  "get_tenant_info_from_request cfg valid req reg db now_check now_add =
     (let l0 = locals_init cfg;
          tenant_from_header = (case header_X_Tenant_Id req of None \<Rightarrow> [] | Some h \<Rightarrow> h)
      in if tenant_from_header \<noteq> [] \<and> valid tenant_from_header then
           (if TENANT_ISOLATION_MODE cfg = ''database'' then
              (case lookup_tenant_infrastructure tenant_from_header reg db now_check now_add of
                 (Inl e, reg', db') \<Rightarrow> (Inl e, reg', db')
               | (Inr (d, v), reg', db') \<Rightarrow>
                   (Inr (PStr tenant_from_header, PStr tenant_from_header, d, v), reg', db'))
            else (Inr (PStr tenant_from_header, PStr tenant_from_header, None, None), reg, db))
         else
           (case auth_header_tenant req of
              Inl e \<Rightarrow> (Inl e, reg, db)
            | Inr (Some auth_tenant_id) \<Rightarrow>
                (if TENANT_ISOLATION_MODE cfg = ''database'' then
                   (case lookup_tenant_infrastructure auth_tenant_id reg db
                           now_check now_add of
                      (Inl e, reg', db') \<Rightarrow> (Inl e, reg', db')
                    | (Inr (d, v), reg', db') \<Rightarrow>
                        (Inr (PStr auth_tenant_id, PStr auth_tenant_id, d, v), reg', db'))
                 else (Inr (PStr auth_tenant_id, PStr auth_tenant_id, None, None), reg, db))
            | Inr None \<Rightarrow>
                (let (outcome, l, reg', db') =
                       try_body cfg valid req l0 reg db now_check now_add
                 in (try_finally (except_clauses outcome) (finally_clause cfg valid req l),
                     reg', db'))))"

text \<open>
  The middleware \<^verbatim>\<open>set_tenant_id\<close> up to the call of the next handler: the context
  that handler runs in, or the exception raised instead.
\<close>

definition set_tenant_id ::
  "config \<Rightarrow> (string \<Rightarrow> bool) \<Rightarrow> request \<Rightarrow> tenant_ctx \<Rightarrow> TenantRegistry \<Rightarrow> platform_db
     \<Rightarrow> real \<Rightarrow> real \<Rightarrow> (exn + tenant_ctx) \<times> TenantRegistry \<times> platform_db" where
  "set_tenant_id cfg valid req ctx reg db now_check now_add =
     (if MULTI_TENANT cfg then
        (case get_tenant_info_from_request cfg valid req reg db now_check now_add of
           (Inl e, reg', db') \<Rightarrow> (Inl e, reg', db')
         | (Inr (t, og, d, v), reg', db') \<Rightarrow>
             (Inr (fst (set_tenant_context (pyval_to_opt t) (pyval_to_opt og) d v
                          (TENANT_ISOLATION_MODE cfg) ctx)), reg', db'))
      else
        (Inr (ctx\<lparr>CURRENT_TENANT_ID_CONTEXTVAR :=
                    fst (cv_set (Some (POSTGRES_DEFAULT_SCHEMA cfg))
                           (CURRENT_TENANT_ID_CONTEXTVAR ctx))\<rparr>), reg, db))"

section \<open>Connection pool (\<^verbatim>\<open>onyx/document_index/vespa/tenant_vespa_client.py\<close>)\<close>

text \<open>
  An \<^verbatim>\<open>httpx.Client\<close> is a handle (a number). The pool keeps its clients in a
  dictionary, which in Python iterates in insertion order: an association list with
  distinct keys. \<open>closed\<close> lists the handles that \<^verbatim>\<open>close()\<close> was called on, and
  \<open>next_handle\<close> is the supply of fresh handles.
\<close>

record CachedVespaClient =
  client :: nat
  client_url :: string
  created_at :: real
  last_access :: real
  client_last_health_check :: "real option"
  is_healthy :: bool

record TenantVespaClientPool =
  clients :: "(string \<times> CachedVespaClient) list"
  closed :: "nat list"
  next_handle :: nat

definition MAX_CLIENTS :: nat where
  "MAX_CLIENTS = 50"

definition HEALTH_CHECK_INTERVAL :: int where
  "HEALTH_CHECK_INTERVAL = 60"

definition TenantVespaClientPool_init :: TenantVespaClientPool where
  "TenantVespaClientPool_init = \<lparr>clients = [], closed = [], next_handle = 0\<rparr>"

text \<open>
  What one call of \<^verbatim>\<open>get_client\<close> takes from outside: the readings of
  \<^verbatim>\<open>time.time()\<close> in program order (the access stamp, the reading of
  \<^verbatim>\<open>_should_health_check\<close>, the one of \<^verbatim>\<open>_perform_health_check\<close>, and the two of the
  constructor call), whether the health probe answers with status code \<^verbatim>\<open>up\<close>, and
  whether \<^verbatim>\<open>httpx.Client(...)\<close> can be built.
\<close>

record pool_env =
  t_access :: real
  t_should :: real
  t_checked :: real
  t_created :: real
  t_last :: real
  health_up :: bool
  create_ok :: bool

text \<open>Dictionary operations: storing keeps the position of a present key.\<close>

fun dict_store :: "'k \<Rightarrow> 'v \<Rightarrow> ('k \<times> 'v) list \<Rightarrow> ('k \<times> 'v) list" where
  "dict_store k v [] = [(k, v)]"
| "dict_store k v (p # ps) = (if fst p = k then (k, v) # ps else p # dict_store k v ps)"

definition dict_pop :: "'k \<Rightarrow> ('k \<times> 'v) list \<Rightarrow> ('k \<times> 'v) list" where
  "dict_pop k d = filter (\<lambda>p. fst p \<noteq> k) d"

text \<open>
  Python's \<^verbatim>\<open>min(iterable, key=...)\<close>: the candidate changes only for a strictly
  smaller key, so the first minimal element wins.
\<close>

fun min_first :: "('a \<Rightarrow> real) \<Rightarrow> 'a \<Rightarrow> 'a list \<Rightarrow> 'a" where
  "min_first key best [] = best"
| "min_first key best (x # xs) = min_first key (if key x < key best then x else best) xs"

definition resolve_vespa_url :: "config \<Rightarrow> tenant_ctx \<Rightarrow> string option \<Rightarrow> string" where
  "resolve_vespa_url cfg ctx url =
     (if url \<noteq> None \<and> url \<noteq> Some [] then (case url of Some u \<Rightarrow> u | None \<Rightarrow> [])
      else if is_full_database_isolation ctx
              \<and> get_current_vespa_url ctx \<noteq> None \<and> get_current_vespa_url ctx \<noteq> Some []
           then (case get_current_vespa_url ctx of Some u \<Rightarrow> u | None \<Rightarrow> [])
      else VESPA_APP_CONTAINER_URL cfg)"

definition should_health_check :: "CachedVespaClient \<Rightarrow> real \<Rightarrow> bool" where
  "should_health_check cached now =
     (case client_last_health_check cached of
        None \<Rightarrow> True
      | Some t \<Rightarrow> now - t > of_int HEALTH_CHECK_INTERVAL)"

definition perform_health_check :: "CachedVespaClient \<Rightarrow> pool_env \<Rightarrow> CachedVespaClient" where
  "perform_health_check cached env =
     cached\<lparr>is_healthy := health_up env, client_last_health_check := Some (t_checked env)\<rparr>"

definition remove_client :: "string \<Rightarrow> TenantVespaClientPool \<Rightarrow> TenantVespaClientPool" where
  "remove_client url pool =
     (case map_of (clients pool) url of
        None \<Rightarrow> pool
      | Some cached \<Rightarrow>
          pool\<lparr>clients := dict_pop url (clients pool), closed := closed pool @ [client cached]\<rparr>)"

definition oldest_url :: "(string \<times> CachedVespaClient) list \<Rightarrow> string" where
  "oldest_url d =
     (case d of [] \<Rightarrow> [] | p # ps \<Rightarrow> fst (min_first (\<lambda>q. last_access (snd q)) p ps))"

definition evict_oldest_client :: "TenantVespaClientPool \<Rightarrow> TenantVespaClientPool" where
  "evict_oldest_client pool =
     (if clients pool = [] then pool else remove_client (oldest_url (clients pool)) pool)"

definition invalidate_client :: "string \<Rightarrow> TenantVespaClientPool \<Rightarrow> TenantVespaClientPool" where
  "invalidate_client url pool = remove_client url pool"

text \<open>The entry built for a fresh client (lines 123 to 128).\<close>

definition new_client :: "nat \<Rightarrow> string \<Rightarrow> pool_env \<Rightarrow> CachedVespaClient" where
  "new_client h url env =
     \<lparr>client = h, client_url = url, created_at = t_created env, last_access = t_last env,
      client_last_health_check = None, is_healthy = True\<rparr>"

text \<open>
  The update of a client found in the pool (lines 105 to 109): the access stamp, then
  the health check when one is due.
\<close>

definition touch_client :: "CachedVespaClient \<Rightarrow> pool_env \<Rightarrow> CachedVespaClient" where
  "touch_client cached env =
     (let c1 = cached\<lparr>last_access := t_access env\<rparr>
      in if should_health_check c1 (t_should env) then perform_health_check c1 env else c1)"

text \<open>
  The creation path (lines 117 to 131): eviction when the pool is full, then the
  construction of the client, which may fail, and its insertion.
\<close>

definition create_and_store ::
  "string \<Rightarrow> pool_env \<Rightarrow> TenantVespaClientPool \<Rightarrow> (exn + nat) \<times> TenantVespaClientPool" where
  "create_and_store target_url env pool1 =
     (let pool2 = (if length (clients pool1) \<ge> MAX_CLIENTS
                   then evict_oldest_client pool1 else pool1)
      in if \<not> create_ok env then (Inl (OtherException ''client creation failed''), pool2)
         else
           (let h = next_handle pool2
            in (Inr h,
                pool2\<lparr>clients := dict_store target_url (new_client h target_url env)
                                   (clients pool2),
                       next_handle := Suc h\<rparr>)))"

text \<open>
  \<^verbatim>\<open>get_client\<close>. The first component is the handle returned, or the exception of a
  failed construction.
\<close>

definition get_client ::
  "config \<Rightarrow> tenant_ctx \<Rightarrow> string option \<Rightarrow> pool_env \<Rightarrow> TenantVespaClientPool
     \<Rightarrow> (exn + nat) \<times> TenantVespaClientPool" where
  "get_client cfg ctx url env pool =
     (let target_url = resolve_vespa_url cfg ctx url
      in case map_of (clients pool) target_url of
           None \<Rightarrow> create_and_store target_url env pool
         | Some cached \<Rightarrow>
             (let c2 = touch_client cached env;
                  p1 = pool\<lparr>clients := dict_store target_url c2 (clients pool)\<rparr>
              in if is_healthy c2 then (Inr (client c2), p1)
                 else create_and_store target_url env (remove_client target_url p1)))"

text \<open>The pool's dictionary has distinct keys.\<close>

definition pool_ok :: "TenantVespaClientPool \<Rightarrow> bool" where
  "pool_ok pool = distinct (map fst (clients pool))"

section \<open>Observers, drivers and example data\<close>

text \<open>
  \<open>has_live_entry\<close> says that the cache holds an entry for the organization that has
  not expired at the given clock reading. \<open>lookups\<close> is a caller making consecutive
  lookups of one organization (no cache bypass, nothing in between), one per pair of
  clock readings; it returns the outcomes in order.
\<close>

definition has_live_entry :: "TenantRegistry \<Rightarrow> string \<Rightarrow> real \<Rightarrow> bool" where
  "has_live_entry reg org now =
     (case cache reg org of None \<Rightarrow> False | Some e \<Rightarrow> \<not> is_expired e (ttl_seconds reg) now)"

fun lookups ::
  "TenantRegistry \<Rightarrow> platform_db \<Rightarrow> string \<Rightarrow> (real \<times> real) list
     \<Rightarrow> (exn + TenantInfrastructure) list \<times> TenantRegistry \<times> platform_db" where
  "lookups reg db org [] = ([], reg, db)"
| "lookups reg db org (t # ts) =
     (case get_tenant_infrastructure reg db org False (fst t) (snd t) of
        (r, reg', db') \<Rightarrow>
          (case lookups reg' db' org ts of (rs, reg'', db'') \<Rightarrow> (r # rs, reg'', db'')))"

text \<open>
  The data of the end-to-end scenarios of the specification: organization
  \<^verbatim>\<open>acct_7\<close> with search host \<^verbatim>\<open>vespa-7.internal\<close> and port 8081, a platform database
  whose only row (if any) is the one given, and a registry that cached the active row
  at time 0 with the default TTL.
\<close>

definition row_active :: TenantInfrastructure where
  "row_active =
     \<lparr>organization_id = ''acct_7'', database_host = ''db-7.internal'', database_port = 5432,
      database_name = ''acct_7'', vespa_host = ''vespa-7.internal'', vespa_port = 8081,
      status = ''active'', provisioned_at = None, last_health_check = None,
      metadata = None\<rparr>"

definition row_suspended :: TenantInfrastructure where
  "row_suspended = row_active\<lparr>status := ''suspended''\<rparr>"

definition db_with :: "TenantInfrastructure option \<Rightarrow> platform_db" where
  "db_with r =
     \<lparr>rows = (\<lambda>org. if org = ''acct_7'' then Inr r else Inr None),
      connect_ok = True, query_log = []\<rparr>"

definition reg_cached :: TenantRegistry where
  "reg_cached =
     \<lparr>cache = [''acct_7'' \<mapsto> \<lparr>infrastructure = row_active, cached_at = 0\<rparr>],
      ttl_seconds = 300\<rparr>"

text \<open>
  A deployment in database-isolation mode and one in schema mode, a request carrying
  nothing, the request of scenario B (the session-token store yields tenant
  \<^verbatim>\<open>org_7\<close> of organization \<^verbatim>\<open>acct_7\<close>), a request with the trusted header, and a
  context in which no slot is set.
\<close>

definition cfg_database :: config where
  "cfg_database =
     \<lparr>MULTI_TENANT = True, POSTGRES_DEFAULT_SCHEMA = ''public'',
      TENANT_ISOLATION_MODE = ''database'', VESPA_APP_CONTAINER_URL = ''http://index:8081''\<rparr>"

definition req_empty :: request where
  "req_empty =
     \<lparr>header_X_Tenant_Id = None, auth_header_tenant = Inr None, redis_token_data = Inr None,
      anonymous_user_cookie = None, anonymous_user_data = Inr [], tenant_id_cookie = None\<rparr>"

definition req_session :: request where
  "req_session =
     req_empty\<lparr>redis_token_data :=
       Inr (Some [(''tenant_id'', PStr ''org_7''), (''organization_id'', PStr ''acct_7'')])\<rparr>"

definition ctx_unset :: tenant_ctx where
  "ctx_unset =
     \<lparr>CURRENT_TENANT_ID_CONTEXTVAR = None, CURRENT_DB_URL_CONTEXTVAR = None,
      CURRENT_VESPA_URL_CONTEXTVAR = None, CURRENT_ORG_ID_CONTEXTVAR = None,
      TENANT_ISOLATION_MODE_CONTEXTVAR = None\<rparr>"

definition req_header :: request where
  "req_header = req_empty\<lparr>header_X_Tenant_Id := Some ''acct_7''\<rparr>"

definition cfg_schema :: config where
  "cfg_schema = cfg_database\<lparr>TENANT_ISOLATION_MODE := ''schema''\<rparr>"

text \<open>
  A pool at capacity: fifty clients for fifty distinct endpoints, client \<open>i\<close>
  created, checked and last accessed at time \<open>i\<close>; and the outside world of a call
  at time \<open>t\<close> whose health probe and client construction succeed.
\<close>

definition url_of :: "nat \<Rightarrow> string" where
  "url_of i = ''http://vespa-'' @ digits_of i @ ''.internal:8081''"

definition pooled :: "nat \<Rightarrow> CachedVespaClient" where
  "pooled i =
     \<lparr>client = i, client_url = url_of i, created_at = real i, last_access = real i,
      client_last_health_check = Some (real i), is_healthy = True\<rparr>"

definition pool_full :: TenantVespaClientPool where
  "pool_full =
     \<lparr>clients = map (\<lambda>i. (url_of i, pooled i)) [0..<50], closed = [], next_handle = 50\<rparr>"

definition env_at :: "real \<Rightarrow> pool_env" where
  "env_at t =
     \<lparr>t_access = t, t_should = t, t_checked = t, t_created = t, t_last = t,
      health_up = True, create_ok = True\<rparr>"

section \<open>Properties of the context store\<close>

lemma reset_after_set:
  "reset_tenant_context (snd (set_tenant_context t og d v m ctx))
     (fst (set_tenant_context t og d v m ctx)) = ctx"
  by (cases t; cases og; cases d; cases v)
     (simp_all add: set_tenant_context_def reset_tenant_context_def cv_set_def cv_reset_def)

lemma set_tenant_context_isolation_slot:
  "TENANT_ISOLATION_MODE_CONTEXTVAR (fst (set_tenant_context t og d v m ctx)) = Some m"
  by (cases t; cases og; cases d; cases v)
     (simp_all add: set_tenant_context_def cv_set_def)

lemma set_tenant_context_untouched:
  "t = None \<Longrightarrow>
     CURRENT_TENANT_ID_CONTEXTVAR (fst (set_tenant_context t og d v m ctx))
       = CURRENT_TENANT_ID_CONTEXTVAR ctx"
  "og = None \<Longrightarrow>
     CURRENT_ORG_ID_CONTEXTVAR (fst (set_tenant_context t og d v m ctx))
       = CURRENT_ORG_ID_CONTEXTVAR ctx"
  "d = None \<Longrightarrow>
     CURRENT_DB_URL_CONTEXTVAR (fst (set_tenant_context t og d v m ctx))
       = CURRENT_DB_URL_CONTEXTVAR ctx"
  "v = None \<Longrightarrow>
     CURRENT_VESPA_URL_CONTEXTVAR (fst (set_tenant_context t og d v m ctx))
       = CURRENT_VESPA_URL_CONTEXTVAR ctx"
  by (cases t; cases og; cases d; cases v;
      simp add: set_tenant_context_def cv_set_def)+

text \<open>
  Claim C8, as amended. With multi-tenancy enabled, reading a tenant slot that yields
  \<^verbatim>\<open>None\<close> (never set, or set to \<^verbatim>\<open>None\<close>) raises \<^verbatim>\<open>RuntimeError\<close>. With
  multi-tenancy disabled, \<open>get_current_tenant_id\<close> never raises: it returns the default
  schema when the slot yields no string, and the string held by the slot otherwise.
\<close>

theorem get_current_tenant_id_cases:
  "(MULTI_TENANT cfg \<and> cv_get (tenant_id_default cfg) (CURRENT_TENANT_ID_CONTEXTVAR ctx) = None
      \<longrightarrow> get_current_tenant_id cfg ctx = Inl RuntimeError)
   \<and> (\<not> MULTI_TENANT cfg \<longrightarrow>
        (\<exists>t. get_current_tenant_id cfg ctx = Inr t)
        \<and> (CURRENT_TENANT_ID_CONTEXTVAR ctx = None \<or> CURRENT_TENANT_ID_CONTEXTVAR ctx = Some None
             \<longrightarrow> get_current_tenant_id cfg ctx = Inr (POSTGRES_DEFAULT_SCHEMA cfg))
        \<and> (\<forall>t. CURRENT_TENANT_ID_CONTEXTVAR ctx = Some (Some t)
             \<longrightarrow> get_current_tenant_id cfg ctx = Inr t))"
  by (auto simp: get_current_tenant_id_def tenant_id_default_def cv_get_def
           split: option.splits)

theorem get_current_tenant_id_cases_witness:
  "get_current_tenant_id
     \<lparr>MULTI_TENANT = True, POSTGRES_DEFAULT_SCHEMA = ''public'',
      TENANT_ISOLATION_MODE = ''schema'', VESPA_APP_CONTAINER_URL = ''http://index:8081''\<rparr>
     \<lparr>CURRENT_TENANT_ID_CONTEXTVAR = None, CURRENT_DB_URL_CONTEXTVAR = None,
      CURRENT_VESPA_URL_CONTEXTVAR = None, CURRENT_ORG_ID_CONTEXTVAR = None,
      TENANT_ISOLATION_MODE_CONTEXTVAR = None\<rparr> = Inl RuntimeError
   \<and> get_current_tenant_id
     \<lparr>MULTI_TENANT = False, POSTGRES_DEFAULT_SCHEMA = ''public'',
      TENANT_ISOLATION_MODE = ''schema'', VESPA_APP_CONTAINER_URL = ''http://index:8081''\<rparr>
     \<lparr>CURRENT_TENANT_ID_CONTEXTVAR = Some None, CURRENT_DB_URL_CONTEXTVAR = None,
      CURRENT_VESPA_URL_CONTEXTVAR = None, CURRENT_ORG_ID_CONTEXTVAR = None,
      TENANT_ISOLATION_MODE_CONTEXTVAR = None\<rparr> = Inr ''public''
   \<and> get_current_tenant_id
     \<lparr>MULTI_TENANT = False, POSTGRES_DEFAULT_SCHEMA = ''public'',
      TENANT_ISOLATION_MODE = ''schema'', VESPA_APP_CONTAINER_URL = ''http://index:8081''\<rparr>
     \<lparr>CURRENT_TENANT_ID_CONTEXTVAR = Some (Some ''org_42''), CURRENT_DB_URL_CONTEXTVAR = None,
      CURRENT_VESPA_URL_CONTEXTVAR = None, CURRENT_ORG_ID_CONTEXTVAR = None,
      TENANT_ISOLATION_MODE_CONTEXTVAR = None\<rparr> = Inr ''org_42''"
  using
    get_current_tenant_id_cases
      [of "\<lparr>MULTI_TENANT = True, POSTGRES_DEFAULT_SCHEMA = ''public'',
            TENANT_ISOLATION_MODE = ''schema'', VESPA_APP_CONTAINER_URL = ''http://index:8081''\<rparr>"
          "\<lparr>CURRENT_TENANT_ID_CONTEXTVAR = None, CURRENT_DB_URL_CONTEXTVAR = None,
            CURRENT_VESPA_URL_CONTEXTVAR = None, CURRENT_ORG_ID_CONTEXTVAR = None,
            TENANT_ISOLATION_MODE_CONTEXTVAR = None\<rparr>"]
    get_current_tenant_id_cases
      [of "\<lparr>MULTI_TENANT = False, POSTGRES_DEFAULT_SCHEMA = ''public'',
            TENANT_ISOLATION_MODE = ''schema'', VESPA_APP_CONTAINER_URL = ''http://index:8081''\<rparr>"
          "\<lparr>CURRENT_TENANT_ID_CONTEXTVAR = Some None, CURRENT_DB_URL_CONTEXTVAR = None,
            CURRENT_VESPA_URL_CONTEXTVAR = None, CURRENT_ORG_ID_CONTEXTVAR = None,
            TENANT_ISOLATION_MODE_CONTEXTVAR = None\<rparr>"]
    get_current_tenant_id_cases
      [of "\<lparr>MULTI_TENANT = False, POSTGRES_DEFAULT_SCHEMA = ''public'',
            TENANT_ISOLATION_MODE = ''schema'', VESPA_APP_CONTAINER_URL = ''http://index:8081''\<rparr>"
          "\<lparr>CURRENT_TENANT_ID_CONTEXTVAR = Some (Some ''org_42''), CURRENT_DB_URL_CONTEXTVAR = None,
            CURRENT_VESPA_URL_CONTEXTVAR = None, CURRENT_ORG_ID_CONTEXTVAR = None,
            TENANT_ISOLATION_MODE_CONTEXTVAR = None\<rparr>"]
  by (simp add: tenant_id_default_def cv_get_def)

text \<open>
  Claim C8 as stated fails: with multi-tenancy disabled and the tenant slot set to
  \<^verbatim>\<open>accessor_test\<close> (the situation of the repository's own unit test
  \<^verbatim>\<open>test_get_current_tenant_id\<close>), the value returned is the slot's, not the fixed
  default schema.
\<close>

theorem get_current_tenant_id_returns_slot:
  "get_current_tenant_id
     \<lparr>MULTI_TENANT = False, POSTGRES_DEFAULT_SCHEMA = ''public'',
      TENANT_ISOLATION_MODE = ''schema'', VESPA_APP_CONTAINER_URL = ''http://index:8081''\<rparr>
     \<lparr>CURRENT_TENANT_ID_CONTEXTVAR = Some (Some ''accessor_test''),
      CURRENT_DB_URL_CONTEXTVAR = None, CURRENT_VESPA_URL_CONTEXTVAR = None,
      CURRENT_ORG_ID_CONTEXTVAR = None, TENANT_ISOLATION_MODE_CONTEXTVAR = None\<rparr>
     = Inr ''accessor_test''
   \<and> ''accessor_test''
       \<noteq> POSTGRES_DEFAULT_SCHEMA
           \<lparr>MULTI_TENANT = False, POSTGRES_DEFAULT_SCHEMA = ''public'',
            TENANT_ISOLATION_MODE = ''schema'', VESPA_APP_CONTAINER_URL = ''http://index:8081''\<rparr>"
  by (simp add: get_current_tenant_id_def tenant_id_default_def cv_get_def)

text \<open>
  Claim C9. Resetting with the tokens returned by \<open>set_tenant_context\<close> gives back the
  context the call started from, so every one of the five slots holds again what it
  held before, a slot that held no value included. Under nesting (set A, then set B),
  resetting B gives the context after set A, and resetting A after that gives the
  original context.
\<close>

theorem reset_restores_context:
  "reset_tenant_context (snd (set_tenant_context t og d v m ctx))
     (fst (set_tenant_context t og d v m ctx)) = ctx
   \<and> (let (cA, kA) = set_tenant_context tA oA dA vA mA ctx;
           (cB, kB) = set_tenant_context tB oB dB vB mB cA
       in reset_tenant_context kB cB = cA
          \<and> reset_tenant_context kA (reset_tenant_context kB cB) = ctx)"
proof -
  obtain cA kA where A: "set_tenant_context tA oA dA vA mA ctx = (cA, kA)"
    by (cases "set_tenant_context tA oA dA vA mA ctx")
  obtain cB kB where B: "set_tenant_context tB oB dB vB mB cA = (cB, kB)"
    by (cases "set_tenant_context tB oB dB vB mB cA")
  have rB: "reset_tenant_context kB cB = cA"
    using reset_after_set [of tB oB dB vB mB cA] by (simp add: B)
  have rA: "reset_tenant_context kA cA = ctx"
    using reset_after_set [of tA oA dA vA mA ctx] by (simp add: A)
  show ?thesis
    by (simp add: reset_after_set A B rB rA)
qed

text \<open>
  Claim C10. \<open>set_tenant_context\<close> leaves the slot of every argument that is \<^verbatim>\<open>None\<close>
  as it was, and always writes its \<open>isolation_mode\<close> argument into the isolation-mode
  slot; the default of that argument is \<^verbatim>\<open>schema\<close>. So a nested call that omits the
  argument turns a context in \<^verbatim>\<open>database\<close> mode into \<^verbatim>\<open>schema\<close> mode, and the
  matching reset brings \<^verbatim>\<open>database\<close> mode back.
\<close>

theorem set_tenant_context_frame:
  "(t = None \<longrightarrow>
      CURRENT_TENANT_ID_CONTEXTVAR (fst (set_tenant_context t og d v m ctx))
        = CURRENT_TENANT_ID_CONTEXTVAR ctx)
   \<and> (og = None \<longrightarrow>
      CURRENT_ORG_ID_CONTEXTVAR (fst (set_tenant_context t og d v m ctx))
        = CURRENT_ORG_ID_CONTEXTVAR ctx)
   \<and> (d = None \<longrightarrow>
      CURRENT_DB_URL_CONTEXTVAR (fst (set_tenant_context t og d v m ctx))
        = CURRENT_DB_URL_CONTEXTVAR ctx)
   \<and> (v = None \<longrightarrow>
      CURRENT_VESPA_URL_CONTEXTVAR (fst (set_tenant_context t og d v m ctx))
        = CURRENT_VESPA_URL_CONTEXTVAR ctx)
   \<and> TENANT_ISOLATION_MODE_CONTEXTVAR (fst (set_tenant_context t og d v m ctx)) = Some m
   \<and> isolation_mode_default = ''schema''
   \<and> (is_full_database_isolation ctx \<longrightarrow>
        get_tenant_isolation_mode
          (fst (set_tenant_context t og d v isolation_mode_default ctx)) = ''schema''
        \<and> \<not> is_full_database_isolation
              (fst (set_tenant_context t og d v isolation_mode_default ctx))
        \<and> is_full_database_isolation
            (reset_tenant_context
               (snd (set_tenant_context t og d v isolation_mode_default ctx))
               (fst (set_tenant_context t og d v isolation_mode_default ctx))))"
  by (simp add: set_tenant_context_untouched set_tenant_context_isolation_slot
        reset_after_set isolation_mode_default_def is_full_database_isolation_def
        get_tenant_isolation_mode_def cv_get_def)

theorem set_tenant_context_frame_witness:
  "is_full_database_isolation
     \<lparr>CURRENT_TENANT_ID_CONTEXTVAR = Some (Some ''org_7''),
      CURRENT_DB_URL_CONTEXTVAR = Some (Some ''postgresql://db-7.internal:5432/acct_7''),
      CURRENT_VESPA_URL_CONTEXTVAR = Some (Some ''http://vespa-7.internal:8081''),
      CURRENT_ORG_ID_CONTEXTVAR = Some (Some ''acct_7''),
      TENANT_ISOLATION_MODE_CONTEXTVAR = Some ''database''\<rparr>
   \<and> get_tenant_isolation_mode
       (fst (set_tenant_context None None None None isolation_mode_default
          \<lparr>CURRENT_TENANT_ID_CONTEXTVAR = Some (Some ''org_7''),
           CURRENT_DB_URL_CONTEXTVAR = Some (Some ''postgresql://db-7.internal:5432/acct_7''),
           CURRENT_VESPA_URL_CONTEXTVAR = Some (Some ''http://vespa-7.internal:8081''),
           CURRENT_ORG_ID_CONTEXTVAR = Some (Some ''acct_7''),
           TENANT_ISOLATION_MODE_CONTEXTVAR = Some ''database''\<rparr>)) = ''schema''
   \<and> CURRENT_VESPA_URL_CONTEXTVAR
       (fst (set_tenant_context None None None None isolation_mode_default
          \<lparr>CURRENT_TENANT_ID_CONTEXTVAR = Some (Some ''org_7''),
           CURRENT_DB_URL_CONTEXTVAR = Some (Some ''postgresql://db-7.internal:5432/acct_7''),
           CURRENT_VESPA_URL_CONTEXTVAR = Some (Some ''http://vespa-7.internal:8081''),
           CURRENT_ORG_ID_CONTEXTVAR = Some (Some ''acct_7''),
           TENANT_ISOLATION_MODE_CONTEXTVAR = Some ''database''\<rparr>))
       = Some (Some ''http://vespa-7.internal:8081'')"
  using set_tenant_context_frame
    [of None None None None isolation_mode_default
        "\<lparr>CURRENT_TENANT_ID_CONTEXTVAR = Some (Some ''org_7''),
          CURRENT_DB_URL_CONTEXTVAR = Some (Some ''postgresql://db-7.internal:5432/acct_7''),
          CURRENT_VESPA_URL_CONTEXTVAR = Some (Some ''http://vespa-7.internal:8081''),
          CURRENT_ORG_ID_CONTEXTVAR = Some (Some ''acct_7''),
          TENANT_ISOLATION_MODE_CONTEXTVAR = Some ''database''\<rparr>"]
  by (simp add: is_full_database_isolation_def get_tenant_isolation_mode_def cv_get_def)

section \<open>Properties of the infrastructure registry\<close>

lemma query_log_query:
  "query_log (snd (query_tenant_infrastructure org db)) = query_log db @ [org]"
  "rows (snd (query_tenant_infrastructure org db)) = rows db"
  "connect_ok (snd (query_tenant_infrastructure org db)) = connect_ok db"
  by (auto simp: query_tenant_infrastructure_def execute_def Let_def split: sum.splits option.splits)

lemma get_ti_hit:
  "cache reg org = Some e \<Longrightarrow> \<not> is_expired e (ttl_seconds reg) t1 \<Longrightarrow>
     get_tenant_infrastructure reg db org False t1 t2 = (Inr (infrastructure e), reg, db)"
  by (simp add: get_tenant_infrastructure_def get_from_cache_def)

lemma drop_absent:
  "cache reg org = None \<Longrightarrow> reg\<lparr>cache := (cache reg)(org := None)\<rparr> = reg"
proof -
  assume a: "cache reg org = None"
  have "(cache reg)(org := None) = cache reg"
    using a by (metis fun_upd_triv)
  then show ?thesis by simp
qed

lemma get_ti_miss:
  "bypass \<or> \<not> has_live_entry reg org t1 \<Longrightarrow>
     get_tenant_infrastructure reg db org bypass t1 t2 =
       (let reg1 = (if bypass then reg else reg\<lparr>cache := (cache reg)(org := None)\<rparr>)
        in case query_tenant_infrastructure org db of
             (Inl e, db') \<Rightarrow> (Inl e, reg1, db')
           | (Inr infra, db') \<Rightarrow> (Inr infra, add_to_cache reg1 org infra t2, db'))"
  by (auto simp: get_tenant_infrastructure_def get_from_cache_def has_live_entry_def Let_def
           drop_absent split: option.splits sum.splits prod.splits)

lemma get_ti_log:
  "query_log (snd (snd (get_tenant_infrastructure reg db org bypass t1 t2))) =
     (if bypass \<or> \<not> has_live_entry reg org t1 then query_log db @ [org] else query_log db)"
proof (cases "bypass \<or> \<not> has_live_entry reg org t1")
  case True
  obtain r db' where q: "query_tenant_infrastructure org db = (r, db')"
    by (cases "query_tenant_infrastructure org db")
  have "query_log db' = query_log db @ [org]"
    using query_log_query(1) [of org db] by (simp add: q)
  with True show ?thesis
    by (simp add: get_ti_miss [OF True] q Let_def split: sum.splits)
next
  case False
  then obtain e where "cache reg org = Some e" "\<not> is_expired e (ttl_seconds reg) t1" "\<not> bypass"
    by (auto simp: has_live_entry_def split: option.splits)
  with False show ?thesis by (simp add: get_ti_hit)
qed


lemma query_suspended:
  "rows db org = Inr (Some row) \<Longrightarrow> status row = ''suspended'' \<Longrightarrow>
     query_tenant_infrastructure org db
       = (Inl (TenantSuspendedError org), db\<lparr>query_log := query_log db @ [org]\<rparr>)"
  by (simp add: query_tenant_infrastructure_def execute_def Let_def is_suspended_def)

lemma query_not_suspended:
  "query_tenant_infrastructure org db = (Inr infra, db') \<Longrightarrow> \<not> is_suspended infra"
  by (auto simp: query_tenant_infrastructure_def execute_def Let_def
           split: sum.splits option.splits if_splits)

lemma get_ti_cache_cases:
  "cache (fst (snd (get_tenant_infrastructure reg db org bypass t1 t2))) k = Some e \<Longrightarrow>
     cache reg k = Some e \<or>
     (k = org \<and> \<not> is_suspended (infrastructure e))"
  by (auto simp: get_tenant_infrastructure_def get_from_cache_def add_to_cache_def Let_def
           split: option.splits sum.splits prod.splits if_splits dest: query_not_suspended)

lemma get_ti_suspended:
  assumes "rows db org = Inr (Some row)" "status row = ''suspended''"
    and "bypass \<or> \<not> has_live_entry reg org t1"
  shows "get_tenant_infrastructure reg db org bypass t1 t2 =
           (Inl (TenantSuspendedError org),
            (if bypass then reg else reg\<lparr>cache := (cache reg)(org := None)\<rparr>),
            db\<lparr>query_log := query_log db @ [org]\<rparr>)"
  by (simp add: get_ti_miss [OF assms(3)] query_suspended [OF assms(1,2)] Let_def)

lemma lookups_suspended:
  assumes "status row = ''suspended''"
  shows "rows db org = Inr (Some row) \<Longrightarrow> cache reg org = None \<Longrightarrow>
         lookups reg db org ts =
           (replicate (length ts) (Inl (TenantSuspendedError org)), reg,
            db\<lparr>query_log := query_log db @ replicate (length ts) org\<rparr>)"
proof (induction ts arbitrary: db)
  case Nil
  then show ?case by simp
next
  case (Cons t ts)
  have nl: "False \<or> \<not> has_live_entry reg org (fst t)"
    using Cons.prems by (simp add: has_live_entry_def)
  have step: "get_tenant_infrastructure reg db org False (fst t) (snd t) =
                (Inl (TenantSuspendedError org), reg, db\<lparr>query_log := query_log db @ [org]\<rparr>)"
    using get_ti_suspended [OF Cons.prems(1) assms nl, of "snd t"] Cons.prems(2)
    by (simp add: drop_absent)
  have rest: "lookups reg (db\<lparr>query_log := query_log db @ [org]\<rparr>) org ts =
                (replicate (length ts) (Inl (TenantSuspendedError org)), reg,
                 db\<lparr>query_log := (query_log db @ [org]) @ replicate (length ts) org\<rparr>)"
    using Cons.IH [of "db\<lparr>query_log := query_log db @ [org]\<rparr>"] Cons.prems by simp
  show ?case
    by (simp add: step rest replicate_app_Cons_same)
qed



text \<open>
  Claim C4, as amended. A suspended record is never stored in the cache: a cache free
  of suspended records stays so under every lookup. When the store reports the
  organization as suspended and the cache holds no unexpired entry for it at the
  first lookup, every one of any number of consecutive lookups raises
  \<^verbatim>\<open>TenantSuspendedError\<close> and issues its own store query, whatever the clock
  readings, and leaves no entry for the organization; once the store reports a row
  that is not suspended, the very next lookup returns that row.
\<close>

theorem suspended_never_cached:
  "((\<forall>k e. cache reg k = Some e \<longrightarrow> \<not> is_suspended (infrastructure e)) \<longrightarrow>
      (\<forall>k e. cache (fst (snd (get_tenant_infrastructure reg db org bypass t1 t2))) k = Some e
         \<longrightarrow> \<not> is_suspended (infrastructure e)))
   \<and> (rows db org = Inr (Some row) \<and> status row = ''suspended''
        \<and> \<not> has_live_entry reg org (fst t) \<longrightarrow>
        lookups reg db org (t # ts) =
          (replicate (Suc (length ts)) (Inl (TenantSuspendedError org)),
           reg\<lparr>cache := (cache reg)(org := None)\<rparr>,
           db\<lparr>query_log := query_log db @ replicate (Suc (length ts)) org\<rparr>)
        \<and> (\<forall>row'. status row' \<noteq> ''suspended'' \<longrightarrow>
             fst (get_tenant_infrastructure
                    (fst (snd (lookups reg db org (t # ts))))
                    ((snd (snd (lookups reg db org (t # ts))))
                       \<lparr>rows := (rows db)(org := Inr (Some row'))\<rparr>)
                    org False t3 t4)
               = Inr (row'\<lparr>metadata := (if metadata row' = Some [] then None
                                          else metadata row')\<rparr>)))"
proof (intro conjI impI)
  assume inv: "\<forall>k e. cache reg k = Some e \<longrightarrow> \<not> is_suspended (infrastructure e)"
  show "\<forall>k e. cache (fst (snd (get_tenant_infrastructure reg db org bypass t1 t2))) k = Some e
         \<longrightarrow> \<not> is_suspended (infrastructure e)"
    using inv get_ti_cache_cases [of reg db org bypass t1 t2] by blast
next
  assume a: "rows db org = Inr (Some row) \<and> status row = ''suspended''
        \<and> \<not> has_live_entry reg org (fst t)"
  let ?reg1 = "reg\<lparr>cache := (cache reg)(org := None)\<rparr>"
  let ?db1 = "db\<lparr>query_log := query_log db @ [org]\<rparr>"
  have nl: "False \<or> \<not> has_live_entry reg org (fst t)" using a by simp
  have step: "get_tenant_infrastructure reg db org False (fst t) (snd t) =
                (Inl (TenantSuspendedError org), ?reg1, ?db1)"
    using get_ti_suspended [of db org row False reg "fst t" "snd t"] a by simp
  have rest: "lookups ?reg1 ?db1 org ts =
                (replicate (length ts) (Inl (TenantSuspendedError org)), ?reg1,
                 ?db1\<lparr>query_log := query_log ?db1 @ replicate (length ts) org\<rparr>)"
    using lookups_suspended [of row ?db1 org ?reg1 ts] a by simp
  show L: "lookups reg db org (t # ts) =
          (replicate (Suc (length ts)) (Inl (TenantSuspendedError org)), ?reg1,
           db\<lparr>query_log := query_log db @ replicate (Suc (length ts)) org\<rparr>)"
    by (simp add: step rest replicate_app_Cons_same)
  show "\<forall>row'. status row' \<noteq> ''suspended'' \<longrightarrow>
             fst (get_tenant_infrastructure
                    (fst (snd (lookups reg db org (t # ts))))
                    ((snd (snd (lookups reg db org (t # ts))))
                       \<lparr>rows := (rows db)(org := Inr (Some row'))\<rparr>)
                    org False t3 t4)
               = Inr (row'\<lparr>metadata := (if metadata row' = Some [] then None
                                          else metadata row')\<rparr>)"
    unfolding L
    by (simp add: get_tenant_infrastructure_def get_from_cache_def
          query_tenant_infrastructure_def execute_def is_suspended_def Let_def)
qed

theorem suspended_never_cached_witness:
  "lookups TenantRegistry_init (db_with (Some row_suspended)) ''acct_7'' [(0, 0), (1, 1), (2, 2)]
     = ([Inl (TenantSuspendedError ''acct_7''), Inl (TenantSuspendedError ''acct_7''),
         Inl (TenantSuspendedError ''acct_7'')],
        TenantRegistry_init,
        (db_with (Some row_suspended))\<lparr>query_log := [''acct_7'', ''acct_7'', ''acct_7'']\<rparr>)
   \<and> cache (fst (snd (get_tenant_infrastructure TenantRegistry_init
                (db_with (Some row_suspended)) ''acct_7'' False 0 0))) ''acct_7'' = None
   \<and> fst (get_tenant_infrastructure TenantRegistry_init
            ((db_with (Some row_suspended))
               \<lparr>query_log := [''acct_7'', ''acct_7'', ''acct_7''],
                rows := (rows (db_with (Some row_suspended)))(''acct_7'' := Inr (Some row_active))\<rparr>)
            ''acct_7'' False 3 3) = Inr row_active"
  using suspended_never_cached
    [of TenantRegistry_init "db_with (Some row_suspended)" "''acct_7''" False 0 0
        row_suspended "(0, 0)" "[(1, 1), (2, 2)]" 3 3]
  by (simp add: TenantRegistry_init_def db_with_def row_suspended_def row_active_def
        has_live_entry_def TENANT_CACHE_TTL_SECONDS_def get_tenant_infrastructure_def
        get_from_cache_def query_tenant_infrastructure_def execute_def is_suspended_def
        add_to_cache_def Let_def)

text \<open>
  Claim C4 as stated fails for an organization suspended after its active record was
  cached: within the TTL window the lookup returns the cached active record, raises
  nothing and issues no store query.
\<close>

theorem stale_entry_hides_suspension:
  "get_tenant_infrastructure reg_cached (db_with (Some row_suspended)) ''acct_7'' False 10 10
     = (Inr row_active, reg_cached, db_with (Some row_suspended))
   \<and> rows (db_with (Some row_suspended)) ''acct_7'' = Inr (Some row_suspended)
   \<and> status row_suspended = ''suspended''
   \<and> query_log (db_with (Some row_suspended)) = []"
  by (simp add: get_tenant_infrastructure_def get_from_cache_def reg_cached_def is_expired_def
        db_with_def row_suspended_def row_active_def)



section \<open>Properties of the tenant resolver\<close>

lemmas resolver_defs =
  get_tenant_info_from_request_def locals_init_def try_body_def anonymous_branch_def finally_clause_def
  try_finally_def except_clauses_def default_info_def invalid_format_def
  lookup_tenant_infrastructure_def get_tenant_infrastructure_def get_from_cache_def
  query_tenant_infrastructure_def execute_def add_to_cache_def is_suspended_def
  dict_get_def py_or_def Let_def

lemmas example_defs =
  cfg_database_def req_empty_def req_session_def ctx_unset_def db_with_def row_active_def
  row_suspended_def TenantRegistry_init_def TENANT_CACHE_TTL_SECONDS_def

lemma valid_ex: "is_valid_schema_name_spec 63 ''org_7''"
  by (simp add: is_valid_schema_name_spec_def ident_char_def)

lemma valid_ex2: "is_valid_schema_name_spec 63 ''org_99''" "is_valid_schema_name_spec 63 ''org_42''"
  "is_valid_schema_name_spec 63 ''acct_7''"
  by (simp_all add: is_valid_schema_name_spec_def ident_char_def)

lemma lookup_log:
  "lookup_tenant_infrastructure org_id reg db t1 t2 = (r, reg', db') \<Longrightarrow>
     (query_log db' = query_log db \<or> query_log db' = query_log db @ [org_id])"
  using get_ti_log [of reg db org_id False t1 t2]
  by (auto simp: lookup_tenant_infrastructure_def split: if_splits prod.splits sum.splits exn.splits)

lemma lookup_not_provisioned:
  assumes "lookup_tenant_infrastructure org_id reg db t1 t2 = (r, reg', db')"
    and "query_log db' = query_log db @ [org]" and "rows db org = Inr None"
  shows "r = Inr (None, None)"
proof (cases "connect_ok db")
  case False
  with assms show ?thesis by (simp add: lookup_tenant_infrastructure_def)
next
  case True
  obtain g regg dbg where g: "get_tenant_infrastructure reg db org_id False t1 t2 = (g, regg, dbg)"
    by (cases "get_tenant_infrastructure reg db org_id False t1 t2")
  have dbeq: "db' = dbg"
    using assms(1) True g
    by (auto simp: lookup_tenant_infrastructure_def split: sum.splits exn.splits)
  have lg: "query_log dbg =
     (if \<not> has_live_entry reg org_id t1 then query_log db @ [org_id] else query_log db)"
    using get_ti_log [of reg db org_id False t1 t2] by (simp add: g)
  have miss: "\<not> has_live_entry reg org_id t1" and oe: "org_id = org"
    using lg assms(2) dbeq by (auto split: if_splits)
  have "g = Inl (TenantNotProvisionedError org)"
    using g miss oe assms(3) get_ti_miss [of False reg org_id t1 db t2]
    by (simp add: query_tenant_infrastructure_def execute_def Let_def)
  then show ?thesis
    using assms(1) True g by (simp add: lookup_tenant_infrastructure_def)
qed


lemma anonymous_branch_np:
  assumes "anonymous_branch cfg valid req l reg db t1 t2 = (ret, l', reg', db')"
    and "query_log db' = query_log db @ [org]" and "rows db org = Inr None"
    and "loc_db_url l = None" and "loc_vespa_url l = None"
  shows "loc_db_url l' = None \<and> loc_vespa_url l' = None"
  using assms
  by (auto simp: anonymous_branch_def Let_def split: sum.splits if_splits prod.splits
           dest: lookup_not_provisioned)

lemma try_body_np:
  assumes "try_body cfg valid req l reg db t1 t2 = (outcome, l', reg', db')"
    and "query_log db' = query_log db @ [org]" and "rows db org = Inr None"
    and "loc_db_url l = None" and "loc_vespa_url l = None"
  shows "loc_db_url l' = None \<and> loc_vespa_url l' = None"
  using assms
  by (auto simp: try_body_def Let_def split: sum.splits if_splits prod.splits option.splits
           dest: lookup_not_provisioned anonymous_branch_np)

lemma finally_clause_locators:
  "\<exists>t og. finally_clause cfg valid req l = Some (t, og, None, None)
     \<or> finally_clause cfg valid req l = Some (t, og, loc_db_url l, loc_vespa_url l)"
  by (auto simp: finally_clause_def default_info_def split: option.splits)

text \<open>
  Claim C1 does not hold of the code. In scenario B the \<^verbatim>\<open>try\<close> body computes the
  tuple the claim expects (tenant \<^verbatim>\<open>org_7\<close>, organization \<^verbatim>\<open>acct_7\<close>, search locator
  \<^verbatim>\<open>http://vespa-7.internal:8081\<close>), but the \<^verbatim>\<open>finally\<close> clause then returns the default
  tuple in its place: the resolver yields the default schema with no organization and
  no locators, and that is what the middleware puts into the context.
\<close>

theorem scenario_B_default:
  "fst (try_body cfg_database (is_valid_schema_name_spec 63) req_session
          (locals_init cfg_database) TenantRegistry_init (db_with (Some row_active)) 0 0)
     = Inr (PStr ''org_7'', PStr ''acct_7'',
            Some ''postgresql://db-7.internal:5432/acct_7'',
            Some ''http://vespa-7.internal:8081'')
   \<and> fst (get_tenant_info_from_request cfg_database (is_valid_schema_name_spec 63) req_session
          TenantRegistry_init (db_with (Some row_active)) 0 0)
     = Inr (PStr ''public'', PNone, None, None)
   \<and> (case fst (set_tenant_id cfg_database (is_valid_schema_name_spec 63) req_session ctx_unset
          TenantRegistry_init (db_with (Some row_active)) 0 0) of
        Inl e \<Rightarrow> False
      | Inr ctx \<Rightarrow> get_current_tenant_id cfg_database ctx = Inr ''public''
           \<and> get_current_org_id ctx = None \<and> get_current_vespa_url ctx = None)"
  by (simp add: resolver_defs example_defs valid_ex locals_init_def set_tenant_id_def
        set_tenant_context_def cv_set_def pyval_to_opt_def get_current_tenant_id_def
        get_current_org_id_def get_current_vespa_url_def cv_get_def tenant_id_default_def
        database_url_def vespa_url_def str_int_def digit_char_def)

text \<open>
  Claim C2 does not hold of the code. On the session-token path the registry lookup of
  a suspended organization raises the 403 failure, and the \<^verbatim>\<open>return\<close> of the
  \<^verbatim>\<open>finally\<close> clause discards it: the resolver returns the default tuple and the
  middleware populates the context. On the trusted-header path the same lookup does
  reach the caller as the 403 failure.
\<close>

theorem suspended_swallowed_on_session_path:
  "fst (lookup_tenant_infrastructure ''acct_7'' TenantRegistry_init
          (db_with (Some row_suspended)) 0 0) = Inl (HTTPException 403 suspended_detail)
   \<and> fst (get_tenant_info_from_request cfg_database (is_valid_schema_name_spec 63) req_session
          TenantRegistry_init (db_with (Some row_suspended)) 0 0)
     = Inr (PStr ''public'', PNone, None, None)
   \<and> (case fst (set_tenant_id cfg_database (is_valid_schema_name_spec 63) req_session ctx_unset
          TenantRegistry_init (db_with (Some row_suspended)) 0 0) of
        Inl e \<Rightarrow> False
      | Inr ctx \<Rightarrow> get_current_tenant_id cfg_database ctx = Inr ''public'')
   \<and> fst (get_tenant_info_from_request cfg_database (is_valid_schema_name_spec 63) req_header
          TenantRegistry_init (db_with (Some row_suspended)) 0 0)
     = Inl (HTTPException 403 suspended_detail)"
  by (simp add: resolver_defs example_defs valid_ex req_header_def set_tenant_id_def
        set_tenant_context_def cv_set_def pyval_to_opt_def get_current_tenant_id_def
        cv_get_def tenant_id_default_def is_valid_schema_name_spec_def ident_char_def)

text \<open>
  Claim C3, as amended. The trusted header and the credential claim take precedence
  over the tenant-override cookie: for a request carrying a non-empty well-formed
  trusted header, or else a credential claim, the whole outcome of the resolver is the
  same whatever the tenant-override cookie holds, and when the resolver returns, the
  tenant id and the organization id are both the header's value (the claim's value,
  respectively).
\<close>

theorem override_cookie_scope:
  "(header_X_Tenant_Id req = Some h \<and> h \<noteq> [] \<and> valid h \<longrightarrow>
      get_tenant_info_from_request cfg valid (req\<lparr>tenant_id_cookie := c'\<rparr>) reg db t1 t2
        = get_tenant_info_from_request cfg valid req reg db t1 t2
      \<and> (\<forall>info. fst (get_tenant_info_from_request cfg valid req reg db t1 t2) = Inr info
             \<longrightarrow> fst info = PStr h \<and> fst (snd info) = PStr h))
   \<and> (\<not> ((case header_X_Tenant_Id req of None \<Rightarrow> [] | Some x \<Rightarrow> x) \<noteq> []
           \<and> valid (case header_X_Tenant_Id req of None \<Rightarrow> [] | Some x \<Rightarrow> x))
       \<and> auth_header_tenant req = Inr (Some a) \<longrightarrow>
      get_tenant_info_from_request cfg valid (req\<lparr>tenant_id_cookie := c'\<rparr>) reg db t1 t2
        = get_tenant_info_from_request cfg valid req reg db t1 t2
      \<and> (\<forall>info. fst (get_tenant_info_from_request cfg valid req reg db t1 t2) = Inr info
             \<longrightarrow> fst info = PStr a \<and> fst (snd info) = PStr a))"
proof (intro conjI impI allI)
  assume a: "header_X_Tenant_Id req = Some h \<and> h \<noteq> [] \<and> valid h"
  then show "get_tenant_info_from_request cfg valid (req\<lparr>tenant_id_cookie := c'\<rparr>) reg db t1 t2
        = get_tenant_info_from_request cfg valid req reg db t1 t2"
    by (simp add: get_tenant_info_from_request_def Let_def)
  fix info
  assume "fst (get_tenant_info_from_request cfg valid req reg db t1 t2) = Inr info"
  with a show "fst info = PStr h" and "fst (snd info) = PStr h"
    by (auto simp: get_tenant_info_from_request_def Let_def
             split: if_splits prod.splits sum.splits)
next
  assume a: "\<not> ((case header_X_Tenant_Id req of None \<Rightarrow> [] | Some x \<Rightarrow> x) \<noteq> []
           \<and> valid (case header_X_Tenant_Id req of None \<Rightarrow> [] | Some x \<Rightarrow> x))
       \<and> auth_header_tenant req = Inr (Some a)"
  then show "get_tenant_info_from_request cfg valid (req\<lparr>tenant_id_cookie := c'\<rparr>) reg db t1 t2
        = get_tenant_info_from_request cfg valid req reg db t1 t2"
    by (auto simp: get_tenant_info_from_request_def Let_def)
  fix info
  assume "fst (get_tenant_info_from_request cfg valid req reg db t1 t2) = Inr info"
  with a show "fst info = PStr a" and "fst (snd info) = PStr a"
    by (auto simp: get_tenant_info_from_request_def Let_def
             split: if_splits prod.splits sum.splits)
qed

theorem override_cookie_scope_witness:
  "get_tenant_info_from_request cfg_database (is_valid_schema_name_spec 63)
       (req_empty\<lparr>header_X_Tenant_Id := Some ''acct_7'', tenant_id_cookie := Some ''org_99''\<rparr>)
       TenantRegistry_init (db_with (Some row_active)) 0 0
     = get_tenant_info_from_request cfg_database (is_valid_schema_name_spec 63)
       (req_empty\<lparr>header_X_Tenant_Id := Some ''acct_7''\<rparr>)
       TenantRegistry_init (db_with (Some row_active)) 0 0
   \<and> fst (get_tenant_info_from_request cfg_database (is_valid_schema_name_spec 63)
       (req_empty\<lparr>header_X_Tenant_Id := Some ''acct_7''\<rparr>)
       TenantRegistry_init (db_with (Some row_active)) 0 0)
     = Inr (PStr ''acct_7'', PStr ''acct_7'',
            Some ''postgresql://db-7.internal:5432/acct_7'',
            Some ''http://vespa-7.internal:8081'')
   \<and> get_tenant_info_from_request cfg_database (is_valid_schema_name_spec 63)
       (req_empty\<lparr>auth_header_tenant := Inr (Some ''acct_7''),
                   tenant_id_cookie := Some ''org_99''\<rparr>)
       TenantRegistry_init (db_with (Some row_active)) 0 0
     = get_tenant_info_from_request cfg_database (is_valid_schema_name_spec 63)
       (req_empty\<lparr>auth_header_tenant := Inr (Some ''acct_7'')\<rparr>)
       TenantRegistry_init (db_with (Some row_active)) 0 0
   \<and> fst (get_tenant_info_from_request cfg_database (is_valid_schema_name_spec 63)
       (req_empty\<lparr>auth_header_tenant := Inr (Some ''acct_7'')\<rparr>)
       TenantRegistry_init (db_with (Some row_active)) 0 0)
     = Inr (PStr ''acct_7'', PStr ''acct_7'',
            Some ''postgresql://db-7.internal:5432/acct_7'',
            Some ''http://vespa-7.internal:8081'')"
  using
    override_cookie_scope
      [where req = "req_empty\<lparr>header_X_Tenant_Id := Some ''acct_7''\<rparr>"
         and h = "''acct_7''" and valid = "is_valid_schema_name_spec 63"
         and cfg = cfg_database and c' = "Some ''org_99''" and reg = TenantRegistry_init
         and db = "db_with (Some row_active)" and ?t1.0 = 0 and ?t2.0 = 0]
    override_cookie_scope
      [where req = "req_empty\<lparr>auth_header_tenant := Inr (Some ''acct_7'')\<rparr>"
         and a = "''acct_7''" and valid = "is_valid_schema_name_spec 63"
         and cfg = cfg_database and c' = "Some ''org_99''" and reg = TenantRegistry_init
         and db = "db_with (Some row_active)" and ?t1.0 = 0 and ?t2.0 = 0]
  by (simp add: resolver_defs example_defs valid_ex2 database_url_def vespa_url_def
        str_int_def digit_char_def)

text \<open>
  Claim C3 as stated fails: with the trusted header \<^verbatim>\<open>org_42\<close> and the well-formed
  tenant-override cookie \<^verbatim>\<open>org_99\<close> the resolver returns \<^verbatim>\<open>org_42\<close> as tenant id and
  as organization id, not the cookie's value.
\<close>

theorem override_cookie_not_preferred:
  "fst (get_tenant_info_from_request cfg_schema (is_valid_schema_name_spec 63)
          (req_empty\<lparr>header_X_Tenant_Id := Some ''org_42'', tenant_id_cookie := Some ''org_99''\<rparr>)
          TenantRegistry_init (db_with None) 0 0)
     = Inr (PStr ''org_42'', PStr ''org_42'', None, None)
   \<and> is_valid_schema_name_spec 63 ''org_99''"
  by (simp add: resolver_defs example_defs cfg_schema_def valid_ex2)

text \<open>
  Claim C6. Whenever the resolver's registry lookup queried the store for an
  organization that has no infrastructure row (the lookup raising
  \<^verbatim>\<open>TenantNotProvisionedError\<close>, which happens in database-isolation mode only), the
  resolver returns normally, with neither a database locator nor a search locator, on
  each of its paths.
\<close>

theorem not_provisioned_degrades:
  assumes "get_tenant_info_from_request cfg valid req reg db t1 t2 = (res, reg', db')"
    and "query_log db' = query_log db @ [org]" and "rows db org = Inr None"
  shows "\<exists>t og. res = Inr (t, og, None, None)"
proof (cases "(case header_X_Tenant_Id req of None \<Rightarrow> [] | Some h \<Rightarrow> h) \<noteq> []
               \<and> valid (case header_X_Tenant_Id req of None \<Rightarrow> [] | Some h \<Rightarrow> h)")
  case True
  with assms show ?thesis
    by (auto simp: get_tenant_info_from_request_def Let_def
             split: if_splits prod.splits sum.splits dest: lookup_not_provisioned)
next
  case False
  show ?thesis
  proof (cases "auth_header_tenant req")
    case (Inl e)
    with False assms show ?thesis
      by (auto simp: get_tenant_info_from_request_def Let_def)
  next
    case (Inr a)
    show ?thesis
    proof (cases a)
      case (Some au)
      with Inr False assms show ?thesis
        by (auto simp: get_tenant_info_from_request_def Let_def
                 split: if_splits prod.splits sum.splits dest: lookup_not_provisioned)
    next
      case None
      let ?l0 = "locals_init cfg"
      obtain outcome l r1 d1 where tb:
        "try_body cfg valid req ?l0 reg db t1 t2 = (outcome, l, r1, d1)"
        by (cases "try_body cfg valid req ?l0 reg db t1 t2")
      have res: "res = try_finally (except_clauses outcome) (finally_clause cfg valid req l)"
        and d: "db' = d1"
        using assms(1) False Inr None tb
        by (auto simp: get_tenant_info_from_request_def Let_def)
      have loc: "loc_db_url l = None \<and> loc_vespa_url l = None"
        using try_body_np [OF tb, of org] assms(2,3) d by (simp add: locals_init_def)
      show ?thesis
        using finally_clause_locators [of cfg valid req l] loc
        by (auto simp: res try_finally_def)
    qed
  qed
qed

theorem not_provisioned_degrades_witness:
  "query_log (snd (snd (get_tenant_info_from_request cfg_database (is_valid_schema_name_spec 63)
       req_header TenantRegistry_init (db_with None) 0 0))) = query_log (db_with None) @ [''acct_7'']
   \<and> rows (db_with None) ''acct_7'' = Inr None
   \<and> fst (get_tenant_info_from_request cfg_database (is_valid_schema_name_spec 63)
       req_header TenantRegistry_init (db_with None) 0 0)
     = Inr (PStr ''acct_7'', PStr ''acct_7'', None, None)"
  using not_provisioned_degrades
    [where cfg = cfg_database and valid = "is_valid_schema_name_spec 63" and req = req_header
       and reg = TenantRegistry_init and db = "db_with None" and ?t1.0 = 0 and ?t2.0 = 0
       and res = "Inr (PStr ''acct_7'', PStr ''acct_7'', None, None)"
       and reg' = TenantRegistry_init
       and db' = "(db_with None)\<lparr>query_log := [''acct_7'']\<rparr>" and org = "''acct_7''"]
  by (simp add: resolver_defs example_defs req_header_def valid_ex2)

section \<open>Properties of the connection pool\<close>

lemma min_first_mem: "min_first key best xs \<in> set (best # xs)"
  by (induction xs arbitrary: best) auto

lemma min_first_le_all: "\<forall>x \<in> set (best # xs). key (min_first key best xs) \<le> key x"
proof (induction xs arbitrary: best)
  case Nil
  then show ?case by simp
next
  case (Cons y ys)
  let ?b = "if key y < key best then y else best"
  have ih: "\<forall>x \<in> set (?b # ys). key (min_first key ?b ys) \<le> key x"
    by (rule Cons.IH)
  then have b: "key (min_first key ?b ys) \<le> key ?b" by simp
  have "key ?b \<le> key best" "key ?b \<le> key y" by auto
  with b have "key (min_first key ?b ys) \<le> key best" "key (min_first key ?b ys) \<le> key y"
    by linarith+
  with ih show ?case by auto
qed

lemma min_first_le: "x \<in> set (best # xs) \<Longrightarrow> key (min_first key best xs) \<le> key x"
  using min_first_le_all [of best xs key] by blast

lemma oldest_url_min:
  assumes "d \<noteq> []"
  shows "\<exists>c. (oldest_url d, c) \<in> set d \<and> (\<forall>p \<in> set d. last_access c \<le> last_access (snd p))"
proof -
  obtain p ps where d: "d = p # ps" using assms by (cases d) auto
  let ?m = "min_first (\<lambda>q. last_access (snd q)) p ps"
  have m: "?m \<in> set d" using min_first_mem [of "\<lambda>q. last_access (snd q)" p ps] by (simp add: d)
  have le: "\<forall>q \<in> set d. last_access (snd ?m) \<le> last_access (snd q)"
    using min_first_le [of _ p ps "\<lambda>q. last_access (snd q)"] by (simp add: d)
  have "(oldest_url d, snd ?m) \<in> set d" using m by (simp add: oldest_url_def d)
  with le show ?thesis by blast
qed

lemma dict_store_absent: "map_of d k = None \<Longrightarrow> dict_store k v d = d @ [(k, v)]"
  by (induction d) (auto split: if_splits)

lemma dict_store_keys: "map_of d k \<noteq> None \<Longrightarrow> map fst (dict_store k v d) = map fst d"
  by (induction d) (auto split: if_splits)

lemma dict_store_length: "map_of d k \<noteq> None \<Longrightarrow> length (dict_store k v d) = length d"
  using dict_store_keys [of d k v] by (metis length_map)

lemma map_of_dict_store: "map_of (dict_store k v d) k' = (if k' = k then Some v else map_of d k')"
  by (induction d) (auto split: if_splits)

lemma dict_store_set:
  "(w, c) \<in> set d \<Longrightarrow> w \<noteq> k \<Longrightarrow> (w, c) \<in> set (dict_store k v d)"
  by (induction d) (auto split: if_splits)

lemma dict_pop_keys: "map fst (dict_pop k d) = filter (\<lambda>x. x \<noteq> k) (map fst d)"
  by (induction d) (auto simp: dict_pop_def)

lemma dict_pop_length:
  "distinct (map fst d) \<Longrightarrow> map_of d k \<noteq> None \<Longrightarrow> Suc (length (dict_pop k d)) = length d"
proof (induction d)
  case Nil
  then show ?case by simp
next
  case (Cons p ps)
  show ?case
  proof (cases "fst p = k")
    case True
    then have "k \<notin> fst ` set ps" using Cons.prems(1) by auto
    then have "filter (\<lambda>q. fst q \<noteq> k) ps = ps"
      by (induction ps) auto
    with True show ?thesis by (simp add: dict_pop_def)
  next
    case False
    with Cons show ?thesis by (auto simp: dict_pop_def)
  qed
qed

lemma map_of_dict_pop: "map_of (dict_pop k d) k' = (if k' = k then None else map_of d k')"
  by (induction d) (auto simp: dict_pop_def)

lemma dict_pop_distinct: "distinct (map fst d) \<Longrightarrow> distinct (map fst (dict_pop k d))"
  by (simp add: dict_pop_keys)


lemma evict_oldest:
  assumes "pool_ok pool" "clients pool \<noteq> []"
  shows "\<exists>u c. (u, c) \<in> set (clients pool)
           \<and> (\<forall>p \<in> set (clients pool). last_access c \<le> last_access (snd p))
           \<and> evict_oldest_client pool =
               pool\<lparr>clients := dict_pop u (clients pool), closed := closed pool @ [client c]\<rparr>"
proof -
  obtain c where c: "(oldest_url (clients pool), c) \<in> set (clients pool)"
    "\<forall>p \<in> set (clients pool). last_access c \<le> last_access (snd p)"
    using oldest_url_min [OF assms(2)] by blast
  have "map_of (clients pool) (oldest_url (clients pool)) = Some c"
    using c(1) assms(1) by (simp add: pool_ok_def)
  then have "evict_oldest_client pool =
       pool\<lparr>clients := dict_pop (oldest_url (clients pool)) (clients pool),
            closed := closed pool @ [client c]\<rparr>"
    using assms(2) by (simp add: evict_oldest_client_def remove_client_def)
  with c show ?thesis by blast
qed

lemma touch_last_access_healthy:
  "is_healthy (touch_client cached env) \<Longrightarrow> last_access (touch_client cached env) = t_access env"
  by (simp add: touch_client_def perform_health_check_def Let_def)

lemma touch_last_access: "last_access (touch_client cached env) = t_access env"
  by (simp add: touch_client_def perform_health_check_def Let_def)

lemma touch_client_handle: "client (touch_client cached env) = client cached"
  by (simp add: touch_client_def perform_health_check_def Let_def)

lemma create_at_capacity:
  assumes "pool_ok pool" "length (clients pool) = MAX_CLIENTS"
    and "map_of (clients pool) target = None" "create_ok env"
  shows "\<exists>u c. (u, c) \<in> set (clients pool)
           \<and> (\<forall>p \<in> set (clients pool). last_access c \<le> last_access (snd p))
           \<and> create_and_store target env pool =
               (Inr (next_handle pool),
                pool\<lparr>clients := dict_pop u (clients pool)
                                  @ [(target, new_client (next_handle pool) target env)],
                     closed := closed pool @ [client c],
                     next_handle := Suc (next_handle pool)\<rparr>)"
proof -
  have ne: "clients pool \<noteq> []" using assms(2) by (auto simp: MAX_CLIENTS_def)
  obtain u c where uc: "(u, c) \<in> set (clients pool)"
    "\<forall>p \<in> set (clients pool). last_access c \<le> last_access (snd p)"
    "evict_oldest_client pool =
       pool\<lparr>clients := dict_pop u (clients pool), closed := closed pool @ [client c]\<rparr>"
    using evict_oldest [OF assms(1) ne] by blast
  have ab: "map_of (dict_pop u (clients pool)) target = None"
    using assms(3) by (simp add: map_of_dict_pop)
  have "create_and_store target env pool =
               (Inr (next_handle pool),
                pool\<lparr>clients := dict_pop u (clients pool)
                                  @ [(target, new_client (next_handle pool) target env)],
                     closed := closed pool @ [client c],
                     next_handle := Suc (next_handle pool)\<rparr>)"
    using assms(2,4) uc(3) dict_store_absent [OF ab]
    by (simp add: create_and_store_def Let_def)
  with uc(1,2) show ?thesis by blast
qed

lemma create_bound:
  assumes "pool_ok pool" "length (clients pool) \<le> MAX_CLIENTS"
    and "map_of (clients pool) target = None"
  shows "pool_ok (snd (create_and_store target env pool))
         \<and> length (clients (snd (create_and_store target env pool))) \<le> MAX_CLIENTS"
proof (cases "length (clients pool) = MAX_CLIENTS")
  case True
  have ne: "clients pool \<noteq> []" using True by (auto simp: MAX_CLIENTS_def)
  obtain u c where uc: "(u, c) \<in> set (clients pool)"
    "evict_oldest_client pool =
       pool\<lparr>clients := dict_pop u (clients pool), closed := closed pool @ [client c]\<rparr>"
    using evict_oldest [OF assms(1) ne] by blast
  have pres: "map_of (clients pool) u \<noteq> None"
    using uc(1) assms(1) by (simp add: pool_ok_def)
  have len: "Suc (length (dict_pop u (clients pool))) = length (clients pool)"
    using dict_pop_length [of "clients pool" u] assms(1) pres by (simp add: pool_ok_def)
  have ab: "map_of (dict_pop u (clients pool)) target = None"
    using assms(3) by (simp add: map_of_dict_pop)
  have tk: "target \<notin> fst ` set (dict_pop u (clients pool))"
    using ab by (simp add: map_of_eq_None_iff)
  have dp: "distinct (map fst (dict_pop u (clients pool)))"
    using assms(1) by (simp add: pool_ok_def dict_pop_distinct)
  show ?thesis
    using True uc(2) len dp tk dict_store_absent [OF ab]
    by (auto simp: create_and_store_def Let_def pool_ok_def)
next
  case False
  have tk: "target \<notin> fst ` set (clients pool)"
    using assms(3) by (simp add: map_of_eq_None_iff)
  show ?thesis
    using False assms tk dict_store_absent [OF assms(3)]
    by (auto simp: create_and_store_def Let_def pool_ok_def)
qed

lemma remove_present:
  assumes "pool_ok p" "map_of (clients p) k \<noteq> None"
  shows "pool_ok (remove_client k p)" "Suc (length (clients (remove_client k p))) = length (clients p)"
    "map_of (clients (remove_client k p)) k = None"
  using assms dict_pop_length [of "clients p" k]
  by (auto simp: remove_client_def pool_ok_def dict_pop_distinct map_of_dict_pop)

lemma get_client_bound:
  assumes "pool_ok pool" "length (clients pool) \<le> MAX_CLIENTS"
  shows "pool_ok (snd (get_client cfg ctx url env pool))
         \<and> length (clients (snd (get_client cfg ctx url env pool))) \<le> MAX_CLIENTS"
proof (cases "map_of (clients pool) (resolve_vespa_url cfg ctx url)")
  case None
  then show ?thesis
    using create_bound [OF assms, of "resolve_vespa_url cfg ctx url" env]
    by (simp add: get_client_def Let_def)
next
  case (Some cached)
  let ?t = "resolve_vespa_url cfg ctx url"
  let ?p1 = "pool\<lparr>clients := dict_store ?t (touch_client cached env) (clients pool)\<rparr>"
  have pres: "map_of (clients pool) ?t \<noteq> None" using Some by simp
  have ok1: "pool_ok ?p1" and len1: "length (clients ?p1) = length (clients pool)"
    and pres1: "map_of (clients ?p1) ?t \<noteq> None"
    using assms(1) dict_store_keys [OF pres] dict_store_length [OF pres]
    by (simp_all add: pool_ok_def map_of_dict_store)
  show ?thesis
  proof (cases "is_healthy (touch_client cached env)")
    case True
    with Some ok1 len1 assms(2) show ?thesis by (simp add: get_client_def Let_def)
  next
    case False
    note r = remove_present [OF ok1 pres1]
    have "length (clients (remove_client ?t ?p1)) \<le> MAX_CLIENTS"
      using r(2) len1 assms(2) by linarith
    then show ?thesis
      using create_bound [OF r(1) _ r(3), of env] Some False
      by (simp add: get_client_def Let_def)
  qed
qed


lemma create_keeps_recent:
  assumes "pool_ok p" "map_of (clients p) k = Some c"
    and "(w, cw) \<in> set (clients p)" "last_access cw < last_access c" "k \<noteq> target2"
  shows "map_of (clients (snd (create_and_store target2 env2 p))) k = Some c"
proof -
  let ?p2 = "if length (clients p) \<ge> MAX_CLIENTS then evict_oldest_client p else p"
  have keep: "map_of (clients ?p2) k = Some c"
  proof (cases "length (clients p) \<ge> MAX_CLIENTS")
    case False
    then show ?thesis using assms(2) by simp
  next
    case True
    have ne: "clients p \<noteq> []" using assms(3) by auto
    obtain u cu where uc: "(u, cu) \<in> set (clients p)"
      "\<forall>q \<in> set (clients p). last_access cu \<le> last_access (snd q)"
      "evict_oldest_client p =
         p\<lparr>clients := dict_pop u (clients p), closed := closed p @ [client cu]\<rparr>"
      using evict_oldest [OF assms(1) ne] by blast
    have "last_access cu \<le> last_access cw" using uc(2) assms(3) by force
    then have lt: "last_access cu < last_access c" using assms(4) by linarith
    have "map_of (clients p) u = Some cu" using uc(1) assms(1) by (simp add: pool_ok_def)
    then have "u \<noteq> k" using assms(2) lt by auto
    then show ?thesis using True uc(3) assms(2) by (simp add: map_of_dict_pop)
  qed
  show ?thesis
    using keep assms(5)
    by (simp add: create_and_store_def Let_def map_of_dict_store del: if_split)
qed

lemma pool_full_keys:
  "map fst (clients pool_full) = map url_of [0..<50]"
  by (simp add: pool_full_def comp_def)

lemma urls_distinct: "distinct (map url_of [0..<50])"
  by code_simp

lemma pool_full_ok: "pool_ok pool_full"
  by (simp only: pool_ok_def pool_full_keys urls_distinct)

lemma pool_full_len: "length (clients pool_full) = MAX_CLIENTS"
  by (simp add: pool_full_def MAX_CLIENTS_def)


lemma url_facts:
  "url_of 50 \<notin> set (map url_of [0..<50])" "url_of 1 \<noteq> url_of 0"
  by code_simp+

lemma resolve_explicit: "resolve_vespa_url cfg ctx (Some (url_of i)) = url_of i"
  by (simp add: resolve_vespa_url_def url_of_def)

lemma pool_full_mem: "i < 50 \<Longrightarrow> (url_of i, pooled i) \<in> set (clients pool_full)"
  by (auto simp: pool_full_def)

lemma pool_full_lookup: "i < 50 \<Longrightarrow> map_of (clients pool_full) (url_of i) = Some (pooled i)"
  using pool_full_ok pool_full_mem [of i] by (simp add: pool_ok_def)

lemma pool_full_miss: "map_of (clients pool_full) (url_of 50) = None"
  using url_facts(1) by (simp add: map_of_eq_None_iff pool_full_keys [symmetric])

text \<open>
  Claim C7. For a pool with distinct endpoints and at most \<open>MAX_CLIENTS\<close> (50)
  clients, \<open>get_client\<close> leaves a pool with distinct endpoints and at most 50
  clients. When the pool holds 50 clients and the endpoint is new, one client is
  evicted, its last-access stamp is smallest among all pooled clients, it is closed,
  and the new client is then appended. A hit on a pooled endpoint whose client stays
  healthy returns that client and sets its last-access stamp to the time of the
  access; if some other pooled client was last accessed strictly earlier (as with an
  advancing clock), the client just accessed is still in the pool, unchanged, after
  the following call for a new endpoint, evicting or not.
\<close>

theorem pool_lru:
  assumes "pool_ok pool" and "length (clients pool) \<le> MAX_CLIENTS"
  shows
   "(pool_ok (snd (get_client cfg ctx url env pool))
       \<and> length (clients (snd (get_client cfg ctx url env pool))) \<le> MAX_CLIENTS)
    \<and> (length (clients pool) = MAX_CLIENTS
         \<and> map_of (clients pool) (resolve_vespa_url cfg ctx url) = None \<and> create_ok env \<longrightarrow>
        (\<exists>u c. (u, c) \<in> set (clients pool)
           \<and> (\<forall>p \<in> set (clients pool). last_access c \<le> last_access (snd p))
           \<and> get_client cfg ctx url env pool =
               (Inr (next_handle pool),
                pool\<lparr>clients := dict_pop u (clients pool)
                         @ [(resolve_vespa_url cfg ctx url,
                             new_client (next_handle pool) (resolve_vespa_url cfg ctx url) env)],
                     closed := closed pool @ [client c],
                     next_handle := Suc (next_handle pool)\<rparr>)))
    \<and> (map_of (clients pool) (resolve_vespa_url cfg ctx url) = Some cached
         \<and> is_healthy (touch_client cached env) \<longrightarrow>
        get_client cfg ctx url env pool =
          (Inr (client cached),
           pool\<lparr>clients := dict_store (resolve_vespa_url cfg ctx url) (touch_client cached env)
                              (clients pool)\<rparr>)
        \<and> last_access (touch_client cached env) = t_access env
        \<and> (\<forall>w cw. (w, cw) \<in> set (clients pool) \<and> w \<noteq> resolve_vespa_url cfg ctx url
                   \<and> last_access cw < t_access env
                   \<and> map_of (clients pool) (resolve_vespa_url cfg ctx2 url2) = None \<longrightarrow>
             map_of (clients (snd (get_client cfg ctx2 url2 env2
                                     (snd (get_client cfg ctx url env pool)))))
               (resolve_vespa_url cfg ctx url) = Some (touch_client cached env)))"
proof (intro conjI impI allI)
  show "pool_ok (snd (get_client cfg ctx url env pool))"
    and "length (clients (snd (get_client cfg ctx url env pool))) \<le> MAX_CLIENTS"
    using get_client_bound [OF assms] by simp_all
next
  assume a: "length (clients pool) = MAX_CLIENTS
         \<and> map_of (clients pool) (resolve_vespa_url cfg ctx url) = None \<and> create_ok env"
  then show "\<exists>u c. (u, c) \<in> set (clients pool)
           \<and> (\<forall>p \<in> set (clients pool). last_access c \<le> last_access (snd p))
           \<and> get_client cfg ctx url env pool =
               (Inr (next_handle pool),
                pool\<lparr>clients := dict_pop u (clients pool)
                         @ [(resolve_vespa_url cfg ctx url,
                             new_client (next_handle pool) (resolve_vespa_url cfg ctx url) env)],
                     closed := closed pool @ [client c],
                     next_handle := Suc (next_handle pool)\<rparr>)"
    using create_at_capacity [OF assms(1), of "resolve_vespa_url cfg ctx url" env]
    by (simp add: get_client_def Let_def)
next
  assume h: "map_of (clients pool) (resolve_vespa_url cfg ctx url) = Some cached
         \<and> is_healthy (touch_client cached env)"
  let ?t = "resolve_vespa_url cfg ctx url"
  let ?c2 = "touch_client cached env"
  let ?p1 = "pool\<lparr>clients := dict_store ?t ?c2 (clients pool)\<rparr>"
  show g: "get_client cfg ctx url env pool = (Inr (client cached), ?p1)"
    using h by (simp add: get_client_def Let_def touch_client_handle)
  show "last_access ?c2 = t_access env" by (rule touch_last_access)
  fix w cw
  assume s: "(w, cw) \<in> set (clients pool) \<and> w \<noteq> resolve_vespa_url cfg ctx url
                   \<and> last_access cw < t_access env
                   \<and> map_of (clients pool) (resolve_vespa_url cfg ctx2 url2) = None"
  let ?t2 = "resolve_vespa_url cfg ctx2 url2"
  have pres: "map_of (clients pool) ?t \<noteq> None" using h by simp
  have ne: "?t \<noteq> ?t2" using h s by auto
  have ok1: "pool_ok ?p1"
    using assms(1) dict_store_keys [OF pres] by (simp add: pool_ok_def)
  have m1: "map_of (clients ?p1) ?t = Some ?c2" by (simp add: map_of_dict_store)
  have w1: "(w, cw) \<in> set (clients ?p1)" using s by (simp add: dict_store_set)
  have lt: "last_access cw < last_access ?c2" using s by (simp add: touch_last_access)
  have miss2: "map_of (clients ?p1) ?t2 = None" using s ne by (simp add: map_of_dict_store)
  have sec: "get_client cfg ctx2 url2 env2 ?p1 = create_and_store ?t2 env2 ?p1"
    using miss2 by (simp add: get_client_def Let_def)
  have "map_of (clients (snd (create_and_store ?t2 env2 ?p1))) ?t = Some ?c2"
    by (rule create_keeps_recent [OF ok1 m1 w1 lt ne])
  then show "map_of (clients (snd (get_client cfg ctx2 url2 env2
                                     (snd (get_client cfg ctx url env pool))))) ?t = Some ?c2"
    using sec by (simp add: g)
qed

theorem pool_lru_witness:
  "pool_ok pool_full \<and> length (clients pool_full) = MAX_CLIENTS
   \<and> map_of (clients pool_full) (url_of 50) = None
   \<and> length (clients (snd (get_client cfg_database ctx_unset (Some (url_of 50)) (env_at 101)
                              pool_full))) \<le> MAX_CLIENTS
   \<and> fst (get_client cfg_database ctx_unset (Some (url_of 0)) (env_at 100) pool_full) = Inr 0
   \<and> map_of (clients (snd (get_client cfg_database ctx_unset (Some (url_of 50)) (env_at 101)
                 (snd (get_client cfg_database ctx_unset (Some (url_of 0)) (env_at 100)
                         pool_full)))))
        (url_of 0) = Some (touch_client (pooled 0) (env_at 100))"
proof -
  have le: "length (clients pool_full) \<le> MAX_CLIENTS" using pool_full_len by simp
  note hit = pool_lru [OF pool_full_ok le, where cfg = cfg_database and ctx = ctx_unset
      and url = "Some (url_of 0)" and env = "env_at 100" and cached = "pooled 0"
      and ?ctx2.0 = ctx_unset and ?url2.0 = "Some (url_of 50)" and ?env2.0 = "env_at 101"]
  note new = pool_lru [OF pool_full_ok le, where cfg = cfg_database and ctx = ctx_unset
      and url = "Some (url_of 50)" and env = "env_at 101"]
  have healthy: "is_healthy (touch_client (pooled 0) (env_at 100))"
    by (simp add: touch_client_def pooled_def env_at_def should_health_check_def
          perform_health_check_def HEALTH_CHECK_INTERVAL_def Let_def)
  have older: "last_access (pooled 1) < t_access (env_at 100)"
    by (simp add: pooled_def env_at_def)
  have l0: "map_of (clients pool_full) (url_of 0) = Some (pooled 0)"
    using pool_full_lookup [of 0] by simp
  have m1: "(url_of 1, pooled 1) \<in> set (clients pool_full)"
    using pool_full_mem [of 1] by simp
  have h: "get_client cfg_database ctx_unset (Some (url_of 0)) (env_at 100) pool_full =
             (Inr (client (pooled 0)),
              pool_full\<lparr>clients := dict_store (url_of 0) (touch_client (pooled 0) (env_at 100))
                                      (clients pool_full)\<rparr>)"
    and surv: "map_of (clients (snd (get_client cfg_database ctx_unset (Some (url_of 50))
                 (env_at 101)
                 (snd (get_client cfg_database ctx_unset (Some (url_of 0)) (env_at 100)
                         pool_full)))))
        (url_of 0) = Some (touch_client (pooled 0) (env_at 100))"
    using hit [unfolded resolve_explicit] healthy older l0 m1 url_facts(2) pool_full_miss
    by blast+
  have bound: "length (clients (snd (get_client cfg_database ctx_unset (Some (url_of 50))
                                       (env_at 101) pool_full))) \<le> MAX_CLIENTS"
    using new by blast
  show ?thesis
    using bound h surv pool_full_ok pool_full_len pool_full_miss
    by (simp add: pooled_def)
qed

end
